theory Spec2Isabelle
  imports Complex_Main "HOL-Library.Sublist" "HOL-Library.AList"
begin

section \<open>Python values, exceptions and the world the script runs in\<close>

text \<open>
  The script (src/main.py) is sequential glue around a remotely controlled browser, the
  file system, the clock and the random generator. The embedding makes each of these
  explicit:
  \<^item> a value that goes through \<^verbatim>\<open>json.dump\<close>/\<^verbatim>\<open>json.load\<close> is a \<open>json\<close> term
    (Python's \<^verbatim>\<open>None\<close> is \<open>JNull\<close>, a dict is an association list in insertion order,
    int and float are both \<open>JNum\<close>);
  \<^item> page titles, page HTML and the user name are Python strings whose length counts
    code points: type \<open>ustr\<close>, a list of code points; file names, selectors, URLs and
    JSON strings are \<open>string\<close>;
  \<^item> a Python function is a function from the world to a result and the new world; the
    result is \<open>Inl\<close> of the exception it raised or \<open>Inr\<close> of the value it returned;
  \<^item> everything the script cannot control (browser, clock, random numbers, I/O faults,
    the time stamps of the file system, the JSON codec, \<^verbatim>\<open>str.lower\<close>) is a field
    of the record \<open>sys\<close>, acting on an
    external state of arbitrary type \<open>'x\<close>; theorems hold for every such record.
\<close>

datatype json =
    JNull
  | JBool bool
  | JNum real
  | JStr string
  | JArr "json list"
  | JObj "(string \<times> json) list"

type_synonym ustr = "nat list"

definition u :: "string \<Rightarrow> ustr" where
  "u s = map of_char s"

text \<open>\<^verbatim>\<open>Exception\<close> carries the exception's description; \<^verbatim>\<open>SystemExit\<close> is not an
  \<^verbatim>\<open>Exception\<close> in Python, so no \<^verbatim>\<open>except Exception\<close> clause catches it.\<close>

datatype exn = Exception string | SystemExit int

datatype level = DEBUG | INFO | SUCCESS | WARNING | ERROR

datatype elem = Element nat | NoneElement

type_synonym page = nat

text \<open>Observable events, in the order they happen: log lines (loguru), sleeps, lines
  printed to standard output, and calls of the browser API (name and argument).
  Log messages are ASCII renderings of the source's fixed message texts; interpolated
  numbers are left out.\<close>

datatype event =
    Log level string
  | Sleep real
  | Print string
  | Call string string

record fnode =
  content :: string
  mtime :: real

record 'x world =
  ext :: 'x
  files :: "string \<Rightarrow> fnode option"
  trace :: "event list"
  session_data :: json
  cache_saved :: bool

datatype io_call =
    OpenRead string
  | OpenWrite string
  | Write string
  | Utime string
  | GetMTime string
  | GetSize string
  | Remove string

record 'x sys =
  clock :: "'x \<Rightarrow> real"
  time_sleep :: "real \<Rightarrow> 'x \<Rightarrow> 'x"
  random_uniform :: "real \<Rightarrow> real \<Rightarrow> 'x \<Rightarrow> real \<times> 'x"
  random_randint :: "int \<Rightarrow> int \<Rightarrow> 'x \<Rightarrow> int \<times> 'x"
  random_random :: "'x \<Rightarrow> real \<times> 'x"
  random_sample :: "elem list \<Rightarrow> int \<Rightarrow> 'x \<Rightarrow> (string + elem list) \<times> 'x"
  isoformat_now :: "'x \<Rightarrow> string"
  io_fault :: "io_call \<Rightarrow> 'x \<Rightarrow> bool"
  fs_write :: "string \<Rightarrow> 'x \<Rightarrow> real \<times> 'x"
  json_dumps :: "json \<Rightarrow> string"
  json_loads :: "string \<Rightarrow> string + json"
  str_lower :: "ustr \<Rightarrow> ustr"
  str_strip :: "ustr \<Rightarrow> ustr"
  page_url :: "page \<Rightarrow> 'x \<Rightarrow> (string + ustr) \<times> 'x"
  page_title :: "page \<Rightarrow> 'x \<Rightarrow> (string + ustr) \<times> 'x"
  page_html :: "page \<Rightarrow> 'x \<Rightarrow> (string + ustr) \<times> 'x"
  page_get :: "page \<Rightarrow> string \<Rightarrow> 'x \<Rightarrow> (string + unit) \<times> 'x"
  page_set_cookies :: "page \<Rightarrow> json \<Rightarrow> 'x \<Rightarrow> (string + unit) \<times> 'x"
  page_ele :: "page \<Rightarrow> string \<Rightarrow> 'x \<Rightarrow> (string + elem) \<times> 'x"
  page_run_js :: "page \<Rightarrow> string \<Rightarrow> 'x \<Rightarrow> (string + json) \<times> 'x"
  page_refresh :: "page \<Rightarrow> 'x \<Rightarrow> (string + unit) \<times> 'x"
  page_close :: "page \<Rightarrow> 'x \<Rightarrow> (string + unit) \<times> 'x"
  elem_click :: "elem \<Rightarrow> 'x \<Rightarrow> (string + unit) \<times> 'x"
  elem_input :: "elem \<Rightarrow> ustr option \<Rightarrow> 'x \<Rightarrow> (string + unit) \<times> 'x"
  elem_parent :: "elem \<Rightarrow> 'x \<Rightarrow> (string + elem) \<times> 'x"
  elem_shadow_root :: "elem \<Rightarrow> 'x \<Rightarrow> (string + elem) \<times> 'x"
  elem_ele :: "elem \<Rightarrow> string \<Rightarrow> 'x \<Rightarrow> (string + elem) \<times> 'x"
  elem_eles :: "elem \<Rightarrow> string \<Rightarrow> 'x \<Rightarrow> (string + elem list) \<times> 'x"
  elem_attr :: "elem \<Rightarrow> string \<Rightarrow> 'x \<Rightarrow> (string + json) \<times> 'x"
  browser_cookies :: "'x \<Rightarrow> (string + json) \<times> 'x"
  browser_new_tab :: "'x \<Rightarrow> (string + page) \<times> 'x"
  browser_quit :: "'x \<Rightarrow> (string + unit) \<times> 'x"
  browser_launch :: "'x \<Rightarrow> (string + page) \<times> 'x"
  trigger_statistical_events :: "page \<Rightarrow> 'x \<Rightarrow> 'x"
  enhanced_browse_post :: "page \<Rightarrow> 'x \<Rightarrow> (string + unit) \<times> 'x"
  click_like :: "page \<Rightarrow> 'x \<Rightarrow> 'x"
  print_connect_info :: "'x \<Rightarrow> (string + unit) \<times> 'x"

type_synonym ('a, 'x) io = "'x world \<Rightarrow> (exn + 'a) \<times> 'x world"

definition io_return :: "'a \<Rightarrow> ('a, 'x) io" where
  "io_return v w = (Inr v, w)"

definition io_raise :: "exn \<Rightarrow> ('a, 'x) io" where
  "io_raise e w = (Inl e, w)"

definition io_bind :: "('a, 'x) io \<Rightarrow> ('a \<Rightarrow> ('b, 'x) io) \<Rightarrow> ('b, 'x) io" where
  "io_bind m f w = (case m w of (Inl e, w') \<Rightarrow> (Inl e, w') | (Inr v, w') \<Rightarrow> f v w')"

text \<open>\<^verbatim>\<open>try: m  except Exception as e: h e\<close>\<close>

definition io_try :: "('a, 'x) io \<Rightarrow> (string \<Rightarrow> ('a, 'x) io) \<Rightarrow> ('a, 'x) io" where
  "io_try m h w =
     (case m w of
        (Inl (Exception e), w') \<Rightarrow> h e w'
      | (Inl (SystemExit c), w') \<Rightarrow> (Inl (SystemExit c), w')
      | (Inr v, w') \<Rightarrow> (Inr v, w'))"

text \<open>\<^verbatim>\<open>try: m  finally: fin\<close>: \<open>fin\<close> always runs; an exception of \<open>fin\<close> replaces the
  outcome of \<open>m\<close>.\<close>

definition io_finally :: "('a, 'x) io \<Rightarrow> (unit, 'x) io \<Rightarrow> ('a, 'x) io" where
  "io_finally m fin w =
     (case m w of (r, w') \<Rightarrow>
        (case fin w' of (Inl e, w'') \<Rightarrow> (Inl e, w'') | (Inr _, w'') \<Rightarrow> (r, w'')))"

definition emit :: "event \<Rightarrow> (unit, 'x) io" where
  "emit ev w = (Inr (), w\<lparr>trace := trace w @ [ev]\<rparr>)"

definition logger :: "level \<Rightarrow> string \<Rightarrow> (unit, 'x) io" where
  "logger l msg = emit (Log l msg)"

text \<open>A call of an external operation that may raise: the event is recorded, the
  external state advances, a failure becomes a Python \<^verbatim>\<open>Exception\<close>.\<close>

definition ext_call :: "event \<Rightarrow> ('x \<Rightarrow> (string + 'a) \<times> 'x) \<Rightarrow> ('a, 'x) io" where
  "ext_call ev oper w =
     (case oper (ext w) of (r, x') \<Rightarrow>
        (case r of Inl m \<Rightarrow> Inl (Exception m) | Inr v \<Rightarrow> Inr v,
         w\<lparr>ext := x', trace := trace w @ [ev]\<rparr>))"

text \<open>An external operation that cannot raise (it catches everything itself).\<close>

definition ext_step :: "event \<Rightarrow> ('x \<Rightarrow> 'x) \<Rightarrow> (unit, 'x) io" where
  "ext_step ev oper w = (Inr (), w\<lparr>ext := oper (ext w), trace := trace w @ [ev]\<rparr>)"

definition ext_draw :: "('x \<Rightarrow> 'a \<times> 'x) \<Rightarrow> ('a, 'x) io" where
  "ext_draw oper w = (case oper (ext w) of (v, x') \<Rightarrow> (Inr v, w\<lparr>ext := x'\<rparr>))"

definition time_time :: "'x sys \<Rightarrow> (real, 'x) io" where
  "time_time sys w = (Inr (clock sys (ext w)), w)"

definition sleep :: "'x sys \<Rightarrow> real \<Rightarrow> (unit, 'x) io" where
  "sleep sys d = ext_step (Sleep d) (time_sleep sys d)"

definition lift_result :: "string + 'a \<Rightarrow> ('a, 'x) io" where
  "lift_result r w = (case r of Inl m \<Rightarrow> (Inl (Exception m), w) | Inr v \<Rightarrow> (Inr v, w))"

subsection \<open>Python operations on values\<close>

text \<open>Truth value of a Python object (\<^verbatim>\<open>if x\<close>, \<^verbatim>\<open>x or y\<close>, \<^verbatim>\<open>not x\<close>).\<close>

fun truthy :: "json \<Rightarrow> bool" where
  "truthy JNull = False"
| "truthy (JBool b) = b"
| "truthy (JNum r) = (r \<noteq> 0)"
| "truthy (JStr s) = (s \<noteq> [])"
| "truthy (JArr xs) = (xs \<noteq> [])"
| "truthy (JObj kvs) = (kvs \<noteq> [])"

text \<open>\<^verbatim>\<open>d.get(k, default)\<close>: only a dict has the method.\<close>

fun dict_get :: "json \<Rightarrow> string \<Rightarrow> json \<Rightarrow> string + json" where
  "dict_get (JObj kvs) k d = Inr (case map_of kvs k of Some v \<Rightarrow> v | None \<Rightarrow> d)"
| "dict_get _ k d = Inl ''AttributeError''"

text \<open>\<^verbatim>\<open>d[k] = v\<close> on a dict; anything else loaded from a cache file raises (a list
  indexed by a string, an immutable value).\<close>

fun dict_set :: "json \<Rightarrow> string \<Rightarrow> json \<Rightarrow> string + json" where
  "dict_set (JObj kvs) k v = Inr (JObj (AList.update k v kvs))"
| "dict_set _ k v = Inl ''TypeError''"

text \<open>\<^verbatim>\<open>for x in v\<close>: a list yields its elements, a dict its keys, a string its
  characters; other values are not iterable.\<close>

fun py_iter :: "json \<Rightarrow> string + json list" where
  "py_iter (JArr xs) = Inr xs"
| "py_iter (JObj kvs) = Inr (map (\<lambda>kv. JStr (fst kv)) kvs)"
| "py_iter (JStr s) = Inr (map (\<lambda>c. JStr [c]) s)"
| "py_iter _ = Inl ''TypeError''"

text \<open>\<^verbatim>\<open>v == -1\<close> and \<^verbatim>\<open>v > t\<close> for a float \<open>t\<close>: \<^verbatim>\<open>bool\<close> is a number in Python;
  ordering a float with \<^verbatim>\<open>None\<close>, a string, a list or a dict raises \<^verbatim>\<open>TypeError\<close>.\<close>

fun py_eq_num :: "json \<Rightarrow> real \<Rightarrow> bool" where
  "py_eq_num (JNum r) n = (r = n)"
| "py_eq_num (JBool b) n = ((if b then 1 else 0) = n)"
| "py_eq_num _ n = False"

fun py_gt_num :: "json \<Rightarrow> real \<Rightarrow> string + bool" where
  "py_gt_num (JNum r) t = Inr (r > t)"
| "py_gt_num (JBool b) t = Inr ((if b then 1 else 0) > t)"
| "py_gt_num _ t = Inl ''TypeError''"

section \<open>Cache store (class CacheManager)\<close>

definition os_path_exists :: "string \<Rightarrow> (bool, 'x) io" where
  "os_path_exists file_name w = (Inr (files w file_name \<noteq> None), w)"

definition os_path_getmtime :: "'x sys \<Rightarrow> string \<Rightarrow> (real, 'x) io" where
  "os_path_getmtime sys file_name w =
     (case files w file_name of
        None \<Rightarrow> (Inl (Exception ''FileNotFoundError''), w)
      | Some f \<Rightarrow>
          if io_fault sys (GetMTime file_name) (ext w) then (Inl (Exception ''OSError''), w)
          else (Inr (mtime f), w))"

definition os_path_getsize :: "'x sys \<Rightarrow> string \<Rightarrow> (nat, 'x) io" where
  "os_path_getsize sys file_name w =
     (case files w file_name of
        None \<Rightarrow> (Inl (Exception ''FileNotFoundError''), w)
      | Some f \<Rightarrow>
          if io_fault sys (GetSize file_name) (ext w) then (Inl (Exception ''OSError''), w)
          else (Inr (length (content f)), w))"

definition os_utime :: "'x sys \<Rightarrow> string \<Rightarrow> real \<Rightarrow> (unit, 'x) io" where
  "os_utime sys file_name t w =
     (case files w file_name of
        None \<Rightarrow> (Inl (Exception ''FileNotFoundError''), w)
      | Some f \<Rightarrow>
          if io_fault sys (Utime file_name) (ext w) then (Inl (Exception ''OSError''), w)
          else (Inr (), w\<lparr>files := (files w)(file_name \<mapsto> f\<lparr>mtime := t\<rparr>)\<rparr>))"

definition os_remove :: "'x sys \<Rightarrow> string \<Rightarrow> (unit, 'x) io" where
  "os_remove sys file_name w =
     (case files w file_name of
        None \<Rightarrow> (Inl (Exception ''FileNotFoundError''), w)
      | Some f \<Rightarrow>
          if io_fault sys (Remove file_name) (ext w) then (Inl (Exception ''OSError''), w)
          else (Inr (), w\<lparr>files := (files w)(file_name := None)\<rparr>))"

text \<open>\<^verbatim>\<open>with open(file_name, "r", encoding='utf-8') as f: data = json.load(f)\<close>\<close>

definition read_json :: "'x sys \<Rightarrow> string \<Rightarrow> (json, 'x) io" where
  "read_json sys file_name w =
     (case files w file_name of
        None \<Rightarrow> (Inl (Exception ''FileNotFoundError''), w)
      | Some f \<Rightarrow>
          if io_fault sys (OpenRead file_name) (ext w) then (Inl (Exception ''OSError''), w)
          else (case json_loads sys (content f) of
                  Inl m \<Rightarrow> (Inl (Exception m), w)
                | Inr data \<Rightarrow> (Inr data, w)))"

text \<open>\<^verbatim>\<open>with open(file_name, "w", encoding='utf-8') as f: json.dump(data_to_save, f, ...)\<close>:
  opening truncates (or creates) the file; a failing write leaves it truncated. The
  modification time of the written file is the file system's (\<open>fs_write\<close>), not a
  reading of \<^verbatim>\<open>time.time()\<close>, and writing takes time: \<open>fs_write\<close> also gives the
  external state after the write.\<close>

definition write_json :: "'x sys \<Rightarrow> string \<Rightarrow> json \<Rightarrow> (unit, 'x) io" where
  "write_json sys file_name doc w =
     (if io_fault sys (OpenWrite file_name) (ext w) then (Inl (Exception ''OSError''), w)
      else
        case fs_write sys file_name (ext w) of (stamp, x') \<Rightarrow>
          if io_fault sys (Write file_name) (ext w)
          then (Inl (Exception ''OSError''),
                w\<lparr>ext := x',
                  files := (files w)(file_name \<mapsto> \<lparr>content = [], mtime = stamp\<rparr>)\<rparr>)
          else (Inr (),
                w\<lparr>ext := x',
                  files := (files w)(file_name \<mapsto>
                    \<lparr>content = json_dumps sys doc, mtime = stamp\<rparr>)\<rparr>))"

text \<open>\<^verbatim>\<open>CacheManager.get_file_age_hours\<close> (lines 63-71).\<close>

definition get_file_age_hours :: "'x sys \<Rightarrow> string \<Rightarrow> (real option, 'x) io" where
  "get_file_age_hours sys file_path =
     io_bind (os_path_exists file_path) (\<lambda>ex.
       if \<not> ex then io_return None
       else
         io_bind (os_path_getmtime sys file_path) (\<lambda>file_mtime.
         io_bind (time_time sys) (\<lambda>current_time.
         io_return (Some ((current_time - file_mtime) / 3600)))))"

text \<open>\<^verbatim>\<open>CacheManager.load_cache\<close> (lines 73-91). The value returned is the Python value:
  \<open>JNull\<close> is \<^verbatim>\<open>None\<close>.\<close>

definition load_cache :: "'x sys \<Rightarrow> string \<Rightarrow> (json, 'x) io" where
  "load_cache sys file_name =
     io_bind (os_path_exists file_name) (\<lambda>ex.
       if ex then
         io_try
           (io_bind (read_json sys file_name) (\<lambda>data.
            io_bind (get_file_age_hours sys file_name) (\<lambda>age_hours.
            io_bind (case age_hours of
                       None \<Rightarrow> io_return ()
                     | Some age \<Rightarrow> logger INFO (''cache loaded '' @ file_name)) (\<lambda>_.
            lift_result (dict_get data ''data'' data)))))
           (\<lambda>e. io_bind (logger WARNING (''cache load failed '' @ file_name @ '': '' @ e))
                   (\<lambda>_. io_return JNull))
       else
         io_bind (logger INFO (''cache file does not exist: '' @ file_name))
           (\<lambda>_. io_return JNull))"

text \<open>The document \<^verbatim>\<open>data_to_save\<close> of \<^verbatim>\<open>save_cache\<close> (lines 97-102).\<close>

definition data_to_save :: "json \<Rightarrow> string \<Rightarrow> real \<Rightarrow> json" where
  "data_to_save data stamp created =
     JObj [(''data'', data),
           (''cache_timestamp'', JStr stamp),
           (''cache_version'', JStr ''1.0''),
           (''file_created'', JNum created)]"

text \<open>\<^verbatim>\<open>CacheManager.save_cache\<close> (lines 93-116). Formatting \<^verbatim>\<open>new_age\<close> with
  \<^verbatim>\<open>:.3f\<close> raises \<^verbatim>\<open>TypeError\<close> when it is \<^verbatim>\<open>None\<close>.\<close>

definition datetime_now_isoformat :: "'x sys \<Rightarrow> (string, 'x) io" where
  "datetime_now_isoformat sys w = (Inr (isoformat_now sys (ext w)), w)"

definition save_cache :: "'x sys \<Rightarrow> json \<Rightarrow> string \<Rightarrow> (bool, 'x) io" where
  "save_cache sys data file_name =
     io_try
       (io_bind (datetime_now_isoformat sys) (\<lambda>stamp.
        io_bind (time_time sys) (\<lambda>created.
        io_bind (write_json sys file_name (data_to_save data stamp created)) (\<lambda>_.
        io_bind (time_time sys) (\<lambda>current_time.
        io_bind (os_utime sys file_name current_time) (\<lambda>_.
        io_bind (get_file_age_hours sys file_name) (\<lambda>new_age.
        io_bind (os_path_getsize sys file_name) (\<lambda>file_size.
        io_bind (case new_age of
                   None \<Rightarrow> io_raise (Exception ''TypeError'')
                 | Some a \<Rightarrow> logger INFO (''cache saved to '' @ file_name)) (\<lambda>_.
        io_return True)))))))))
       (\<lambda>e. io_bind (logger ERROR (''cache save failed '' @ file_name @ '': '' @ e))
               (\<lambda>_. io_return False))"

definition load_cookies :: "'x sys \<Rightarrow> (json, 'x) io" where
  "load_cookies sys = load_cache sys ''linuxdo_cookies.json''"

definition save_cookies :: "'x sys \<Rightarrow> json \<Rightarrow> (bool, 'x) io" where
  "save_cookies sys cookies = save_cache sys cookies ''linuxdo_cookies.json''"

text \<open>\<^verbatim>\<open>load_session\<close>: \<^verbatim>\<open>load_cache("linuxdo_session.json") or {}\<close>.\<close>

definition load_session :: "'x sys \<Rightarrow> (json, 'x) io" where
  "load_session sys =
     io_bind (load_cache sys ''linuxdo_session.json'') (\<lambda>v.
     io_return (if truthy v then v else JObj []))"

definition save_session :: "'x sys \<Rightarrow> json \<Rightarrow> (bool, 'x) io" where
  "save_session sys sd = save_cache sys sd ''linuxdo_session.json''"

section \<open>Challenge verifier (class CloudflareHandler)\<close>

text \<open>The loop of \<^verbatim>\<open>is_cf_cookie_valid\<close> (lines 147-152).\<close>

fun cookie_loop :: "'x sys \<Rightarrow> json list \<Rightarrow> (bool, 'x) io" where
  "cookie_loop sys [] = io_return False"
| "cookie_loop sys (cookie # rest) =
     io_bind (lift_result (dict_get cookie ''name'' JNull)) (\<lambda>name.
       if name = JStr ''cf_clearance'' then
         io_bind (lift_result (dict_get cookie ''expires'' (JNum 0))) (\<lambda>expires.
           if py_eq_num expires (- 1) then io_return True
           else
             io_bind (time_time sys) (\<lambda>now.
             io_bind (lift_result (py_gt_num expires now)) (\<lambda>later.
               if later then io_return True else cookie_loop sys rest)))
       else cookie_loop sys rest)"

text \<open>\<^verbatim>\<open>CloudflareHandler.is_cf_cookie_valid\<close> (lines 143-154).\<close>

definition is_cf_cookie_valid :: "'x sys \<Rightarrow> json \<Rightarrow> (bool, 'x) io" where
  "is_cf_cookie_valid sys cookies =
     io_try
       (io_bind (lift_result (py_iter cookies)) (cookie_loop sys))
       (\<lambda>e. io_return False)"

definition HOME_URL :: string where
  "HOME_URL = ''https://linux.do/''"

definition LOGIN_URL :: string where
  "LOGIN_URL = ''https://linux.do/login''"

text \<open>The title of the interstitial, U+8BF7 U+7A0D U+5019 U+2026, and its first three
  characters, which \<^verbatim>\<open>check_login_status\<close> looks for.\<close>

definition WAIT_TITLE :: ustr where
  "WAIT_TITLE = [0x8BF7, 0x7A0D, 0x5019, 0x2026]"

definition WAIT_WORD :: ustr where
  "WAIT_WORD = [0x8BF7, 0x7A0D, 0x5019]"

text \<open>The test \<^verbatim>\<open>page_title != WAIT_TITLE and "Checking" not in page_title\<close>, written
  three times in \<^verbatim>\<open>handle_cloudflare\<close> (lines 186, 200, 220).\<close>

definition title_passed :: "ustr \<Rightarrow> bool" where
  "title_passed title \<longleftrightarrow>
     title \<noteq> WAIT_TITLE \<and> \<not> sublist (u ''Checking'') title"

definition get_title :: "'x sys \<Rightarrow> page \<Rightarrow> (ustr, 'x) io" where
  "get_title sys page = ext_call (Call ''page.title'' []) (page_title sys page)"

definition get_url :: "'x sys \<Rightarrow> page \<Rightarrow> (ustr, 'x) io" where
  "get_url sys page = ext_call (Call ''page.url'' []) (page_url sys page)"

definition get_html :: "'x sys \<Rightarrow> page \<Rightarrow> (ustr, 'x) io" where
  "get_html sys page = ext_call (Call ''page.html'' []) (page_html sys page)"

definition navigate :: "'x sys \<Rightarrow> page \<Rightarrow> string \<Rightarrow> (unit, 'x) io" where
  "navigate sys page url = ext_call (Call ''page.get'' url) (page_get sys page url)"

definition set_cookies :: "'x sys \<Rightarrow> page \<Rightarrow> json \<Rightarrow> (unit, 'x) io" where
  "set_cookies sys page cookies =
     ext_call (Call ''page.set.cookies'' []) (page_set_cookies sys page cookies)"

text \<open>How one iteration of the polling loop ends: with \<^verbatim>\<open>return True\<close>, with
  \<^verbatim>\<open>break\<close>, or by going on to the next attempt, after the randomized wait or after
  the exception handler.\<close>

datatype step = Return_True | Break | Next_after_wait | Next_after_exception

text \<open>The body of the polling loop (lines 195-216).\<close>

definition cf_iteration ::
  "'x sys \<Rightarrow> page \<Rightarrow> real \<Rightarrow> real \<Rightarrow> nat \<Rightarrow> nat \<Rightarrow> (step, 'x) io" where
  "cf_iteration sys page start_time timeout max_attempts attempt =
     io_try
       (io_bind (get_url sys page) (\<lambda>current_url.
        io_bind (get_title sys page) (\<lambda>title.
          if title_passed title then
            io_bind (logger SUCCESS ''page loaded, Cloudflare passed'') (\<lambda>_.
            io_return Return_True)
          else
            io_bind (ext_draw (random_uniform sys 8 15)) (\<lambda>wait_time.
            io_bind (logger INFO ''waiting for Cloudflare'') (\<lambda>_.
            io_bind (sleep sys wait_time) (\<lambda>_.
            io_bind (time_time sys) (\<lambda>now.
              if now - start_time > timeout then
                io_bind (logger WARNING ''Cloudflare handling timed out'') (\<lambda>_.
                io_return Break)
              else io_return Next_after_wait)))))))
       (\<lambda>e. io_bind (logger ERROR (''Cloudflare handling exception: '' @ e)) (\<lambda>_.
             io_bind (sleep sys 10) (\<lambda>_.
             io_return Next_after_exception)))"

text \<open>The polling loop \<^verbatim>\<open>for attempt in range(max_attempts)\<close> (lines 194-216), over
  the attempts still to run. The result is \<open>True\<close> when the loop ended with
  \<^verbatim>\<open>return True\<close>. The second component is not in the source: it lists, per
  iteration performed, how the iteration ended and the time elapsed since
  \<open>start_time\<close> when it ended (for an iteration that waited, the very value the
  source compares with \<open>timeout\<close>).\<close>

fun cf_poll ::
  "'x sys \<Rightarrow> page \<Rightarrow> real \<Rightarrow> real \<Rightarrow> nat \<Rightarrow> nat list \<Rightarrow> (bool \<times> (step \<times> real) list, 'x) io"
  where
  "cf_poll sys page start_time timeout max_attempts [] = io_return (False, [])"
| "cf_poll sys page start_time timeout max_attempts (attempt # rest) =
     io_bind (cf_iteration sys page start_time timeout max_attempts attempt) (\<lambda>how.
     io_bind (time_time sys) (\<lambda>t_end.
       case how of
         Return_True \<Rightarrow> io_return (True, [(how, t_end - start_time)])
       | Break \<Rightarrow> io_return (False, [(how, t_end - start_time)])
       | _ \<Rightarrow>
           io_bind (cf_poll sys page start_time timeout max_attempts rest) (\<lambda>(returned, iters).
           io_return (returned, (how, t_end - start_time) # iters))))"

text \<open>The attempt with cached cookies (lines 176-190): \<open>True\<close> when it ended with
  \<^verbatim>\<open>return True\<close>.\<close>

definition cf_cached_bypass :: "'x sys \<Rightarrow> page \<Rightarrow> json \<Rightarrow> (bool, 'x) io" where
  "cf_cached_bypass sys page cached_cookies =
     io_bind (logger SUCCESS ''valid cached Cloudflare cookie found'') (\<lambda>_.
     io_try
       (if truthy cached_cookies then
          io_bind (set_cookies sys page cached_cookies) (\<lambda>_.
          io_bind (navigate sys page HOME_URL) (\<lambda>_.
          io_bind (sleep sys 5) (\<lambda>_.
          io_bind (get_title sys page) (\<lambda>title.
            if title_passed title then
              io_bind (logger SUCCESS ''bypassed Cloudflare with the cache'') (\<lambda>_.
              io_return True)
            else io_return False))))
        else io_return False)
       (\<lambda>e. io_bind (logger WARNING (''bypass with the cache failed: '' @ e)) (\<lambda>_.
             io_return False)))"

text \<open>The final inspection (lines 218-225).\<close>

definition cf_final_check :: "'x sys \<Rightarrow> page \<Rightarrow> (bool, 'x) io" where
  "cf_final_check sys page =
     io_bind (get_title sys page) (\<lambda>title.
       if title_passed title then
         io_bind (logger SUCCESS ''final check: Cloudflare passed'') (\<lambda>_. io_return True)
       else
         io_bind (logger WARNING ''final check: Cloudflare not fully passed, continuing'')
           (\<lambda>_. io_return True))"

text \<open>The full flow (lines 192-225): polling loop, then the final inspection.\<close>

definition cf_full_flow :: "'x sys \<Rightarrow> page \<Rightarrow> real \<Rightarrow> nat \<Rightarrow> real \<Rightarrow> (bool, 'x) io" where
  "cf_full_flow sys page start_time max_attempts timeout =
     io_bind (logger INFO ''starting the full Cloudflare flow'') (\<lambda>_.
     io_bind (cf_poll sys page start_time timeout max_attempts [0..<max_attempts])
       (\<lambda>(returned, iters).
         if returned then io_return True else cf_final_check sys page))"

text \<open>\<^verbatim>\<open>CloudflareHandler.handle_cloudflare\<close> (lines 156-225).\<close>

definition handle_cloudflare :: "'x sys \<Rightarrow> page \<Rightarrow> nat \<Rightarrow> real \<Rightarrow> (bool, 'x) io" where
  "handle_cloudflare sys page max_attempts timeout =
     io_bind (time_time sys) (\<lambda>start_time.
     io_bind (logger INFO ''start handling Cloudflare'') (\<lambda>_.
     io_bind (load_cookies sys) (\<lambda>cached_cookies.
     io_bind (is_cf_cookie_valid sys
                (if truthy cached_cookies then cached_cookies else JArr []))
       (\<lambda>cached_cf_valid.
     io_bind (if cached_cf_valid then cf_cached_bypass sys page cached_cookies
              else io_return False) (\<lambda>bypassed.
       if bypassed then io_return True
       else cf_full_flow sys page start_time max_attempts timeout)))))"

section \<open>Retry policy (retry_decorator)\<close>

text \<open>The loop of \<^verbatim>\<open>wrapper\<close> (lines 23-33) over the attempts still to run. The result
  is \<open>Some v\<close> when an attempt returned \<open>v\<close>, and \<open>None\<close> (Python's \<^verbatim>\<open>None\<close>) when the
  loop ran out of attempts.\<close>

fun retry_loop ::
  "'x sys \<Rightarrow> nat \<Rightarrow> string \<Rightarrow> ('a, 'x) io \<Rightarrow> nat list \<Rightarrow> ('a option, 'x) io" where
  "retry_loop sys retries fname func [] = io_return None"
| "retry_loop sys retries fname func (attempt # rest) =
     io_bind
       (io_try
          (io_bind func (\<lambda>v. io_return (Some v)))
          (\<lambda>e.
            io_bind (if int attempt = int retries - 1
                     then logger ERROR (''function '' @ fname @ '' finally failed: '' @ e)
                     else io_return ()) (\<lambda>_.
            io_bind (logger WARNING (''function '' @ fname @ '' attempt failed: '' @ e)) (\<lambda>_.
            io_bind (sleep sys 1) (\<lambda>_.
            io_return None)))))
       (\<lambda>r. case r of
              Some v \<Rightarrow> io_return (Some v)
            | None \<Rightarrow> retry_loop sys retries fname func rest)"

text \<open>\<^verbatim>\<open>retry_decorator(retries)(func)\<close> (lines 19-37).\<close>

definition retry_decorator ::
  "'x sys \<Rightarrow> nat \<Rightarrow> string \<Rightarrow> ('a, 'x) io \<Rightarrow> ('a option, 'x) io" where
  "retry_decorator sys retries fname func = retry_loop sys retries fname func [0..<retries]"

section \<open>Session state and browser helpers\<close>

definition get_session_data :: "(json, 'x) io" where
  "get_session_data w = (Inr (session_data w), w)"

definition set_session_data :: "json \<Rightarrow> (unit, 'x) io" where
  "set_session_data v w = (Inr (), w\<lparr>session_data := v\<rparr>)"

definition get_cache_saved :: "(bool, 'x) io" where
  "get_cache_saved w = (Inr (cache_saved w), w)"

definition set_cache_saved :: "bool \<Rightarrow> (unit, 'x) io" where
  "set_cache_saved b w = (Inr (), w\<lparr>cache_saved := b\<rparr>)"

text \<open>\<^verbatim>\<open>self.session_data[k] = v\<close>\<close>

definition session_setitem :: "string \<Rightarrow> json \<Rightarrow> (unit, 'x) io" where
  "session_setitem k v =
     io_bind get_session_data (\<lambda>sd.
     io_bind (lift_result (dict_set sd k v)) set_session_data)"

definition find_ele :: "'x sys \<Rightarrow> page \<Rightarrow> string \<Rightarrow> (elem, 'x) io" where
  "find_ele sys page selector = ext_call (Call ''page.ele'' selector) (page_ele sys page selector)"

definition click :: "'x sys \<Rightarrow> elem \<Rightarrow> (unit, 'x) io" where
  "click sys e = ext_call (Call ''click'' []) (elem_click sys e)"

definition run_js :: "'x sys \<Rightarrow> page \<Rightarrow> string \<Rightarrow> (json, 'x) io" where
  "run_js sys page script = ext_call (Call ''page.run_js'' script) (page_run_js sys page script)"

definition attr_href :: "'x sys \<Rightarrow> elem \<Rightarrow> (json, 'x) io" where
  "attr_href sys e = ext_call (Call ''attr'' ''href'') (elem_attr sys e ''href'')"

text \<open>Truth value of an element: a \<^verbatim>\<open>NoneElement\<close> (nothing found) is false.\<close>

fun elem_truthy :: "elem \<Rightarrow> bool" where
  "elem_truthy (Element n) = True"
| "elem_truthy NoneElement = False"

record config =
  USERNAME :: "ustr option"
  PASSWORD :: "ustr option"
  BROWSE_ENABLED :: bool

text \<open>\<^verbatim>\<open>not v\<close> for the value of an environment variable (\<^verbatim>\<open>None\<close> or a string).\<close>

fun env_falsy :: "ustr option \<Rightarrow> bool" where
  "env_falsy None = True"
| "env_falsy (Some s) = (s = [])"

text \<open>The module-level configuration (lines 43-53), from \<^verbatim>\<open>os.getenv\<close>.\<close>

definition module_config :: "'x sys \<Rightarrow> (string \<Rightarrow> ustr option) \<Rightarrow> config" where
  "module_config sys getenv =
     (let user = getenv ''LINUXDO_USERNAME'';
          pass = getenv ''LINUXDO_PASSWORD'';
          browse = str_lower sys (str_strip sys
                     (case getenv ''BROWSE_ENABLED'' of None \<Rightarrow> u ''true'' | Some v \<Rightarrow> v))
                   \<notin> set [u ''false'', u ''0'', u ''off''];
          user = (if env_falsy user then getenv ''USERNAME'' else user);
          pass = (if env_falsy pass then getenv ''PASSWORD'' else pass)
      in \<lparr>USERNAME = user, PASSWORD = pass, BROWSE_ENABLED = browse\<rparr>)"

text \<open>\<^verbatim>\<open>USERNAME.lower() in content.lower()\<close>; \<^verbatim>\<open>None\<close> has no method \<^verbatim>\<open>lower\<close>.\<close>

definition username_in :: "'x sys \<Rightarrow> config \<Rightarrow> ustr \<Rightarrow> (bool, 'x) io" where
  "username_in sys cfg page_content =
     (case USERNAME cfg of
        None \<Rightarrow> io_raise (Exception ''AttributeError'')
      | Some name \<Rightarrow>
          io_return (sublist (str_lower sys name) (str_lower sys page_content)))"

section \<open>Engagement driver (click_topic, click_one_topic)\<close>

fun full_url_of :: "json \<Rightarrow> string + string" where
  "full_url_of (JStr s) = Inr (if prefix ''/'' s then ''https://linux.do'' @ s else s)"
| "full_url_of _ = Inl ''AttributeError''"

text \<open>The undecorated \<^verbatim>\<open>click_one_topic\<close> (lines 612-632). The three scripted helpers
  \<^verbatim>\<open>trigger_statistical_events\<close>, \<^verbatim>\<open>enhanced_browse_post\<close> and \<^verbatim>\<open>click_like\<close> act on the
  browser only and are operations of \<open>sys\<close>; the first and the last catch every
  exception themselves.\<close>

definition click_one_topic_body :: "'x sys \<Rightarrow> json \<Rightarrow> (unit, 'x) io" where
  "click_one_topic_body sys topic_url =
     io_bind (ext_call (Call ''browser.new_tab'' []) (browser_new_tab sys)) (\<lambda>new_page.
       io_finally
         (io_bind (lift_result (full_url_of topic_url)) (\<lambda>full_url.
          io_bind (navigate sys new_page full_url) (\<lambda>_.
          io_bind (sleep sys 3) (\<lambda>_.
          io_bind (ext_step (Call ''trigger_statistical_events'' [])
                     (trigger_statistical_events sys new_page)) (\<lambda>_.
          io_bind (ext_call (Call ''enhanced_browse_post'' [])
                     (enhanced_browse_post sys new_page)) (\<lambda>_.
          io_bind (ext_draw (random_random sys)) (\<lambda>r.
            if r < 0.25
            then ext_step (Call ''click_like'' []) (click_like sys new_page)
            else io_return ())))))))
         (ext_call (Call ''page.close'' []) (page_close sys new_page)))"

text \<open>\<^verbatim>\<open>click_one_topic\<close> as decorated with \<^verbatim>\<open>@retry_decorator()\<close> (line 611).\<close>

definition click_one_topic :: "'x sys \<Rightarrow> json \<Rightarrow> (unit option, 'x) io" where
  "click_one_topic sys topic_url =
     retry_decorator sys 3 ''click_one_topic'' (click_one_topic_body sys topic_url)"

text \<open>\<^verbatim>\<open>lst.append(x)\<close>: only a list has the method. \<^verbatim>\<open>lst[-50:]\<close> keeps the last 50
  entries.\<close>

fun list_append :: "json \<Rightarrow> json \<Rightarrow> string + json" where
  "list_append (JArr xs) x = Inr (JArr (xs @ [x]))"
| "list_append _ x = Inl ''AttributeError''"

fun has_append :: "json \<Rightarrow> bool" where
  "has_append (JArr xs) = True"
| "has_append _ = False"

fun last_50 :: "json \<Rightarrow> string + json" where
  "last_50 (JArr xs) = Inr (JArr (drop (length xs - 50) xs))"
| "last_50 _ = Inl ''TypeError''"

text \<open>The update of the browse history (lines 600-603). The attribute
  \<^verbatim>\<open>browse_history.append\<close> is looked up before its argument is evaluated.\<close>

definition update_browse_history :: "'x sys \<Rightarrow> elem \<Rightarrow> (unit, 'x) io" where
  "update_browse_history sys topic =
     io_bind get_session_data (\<lambda>sd.
     io_bind (lift_result (dict_get sd ''browse_history'' (JArr []))) (\<lambda>browse_history.
     io_bind (if has_append browse_history then io_return ()
              else io_raise (Exception ''AttributeError'')) (\<lambda>_.
     io_bind (attr_href sys topic) (\<lambda>href.
     io_bind (lift_result (list_append browse_history href)) (\<lambda>appended.
     io_bind (lift_result (last_50 appended)) (\<lambda>kept.
     session_setitem ''browse_history'' kept))))))"

text \<open>The loop of \<^verbatim>\<open>click_topic\<close> (lines 596-609), from index \<open>i\<close> on.\<close>

fun topic_loop :: "'x sys \<Rightarrow> int \<Rightarrow> nat \<Rightarrow> elem list \<Rightarrow> (unit, 'x) io" where
  "topic_loop sys browse_count i [] = io_return ()"
| "topic_loop sys browse_count i (topic # rest) =
     io_bind (logger INFO ''browse progress'') (\<lambda>_.
     io_bind (attr_href sys topic) (\<lambda>href.
     io_bind (click_one_topic sys href) (\<lambda>_.
     io_bind (update_browse_history sys topic) (\<lambda>_.
     io_bind (if int i < browse_count - 1 then
                io_bind (ext_draw (random_uniform sys 8 15)) (\<lambda>delay.
                io_bind (logger INFO ''delay between topics'') (\<lambda>_.
                sleep sys delay))
              else io_return ()) (\<lambda>_.
     topic_loop sys browse_count (Suc i) rest)))))"

definition get_topic_list :: "'x sys \<Rightarrow> page \<Rightarrow> (elem list, 'x) io" where
  "get_topic_list sys page =
     io_bind (find_ele sys page ''@id=list-area'') (\<lambda>area.
     ext_call (Call ''eles'' ''.:title'') (elem_eles sys area ''.:title''))"

text \<open>\<^verbatim>\<open>LinuxDoBrowser.click_topic\<close> (lines 583-609).\<close>

definition click_topic :: "'x sys \<Rightarrow> page \<Rightarrow> (unit, 'x) io" where
  "click_topic sys page =
     io_bind (get_topic_list sys page) (\<lambda>found.
     io_bind (if found = [] then
                io_bind (logger WARNING ''no topics found, refreshing the page'') (\<lambda>_.
                io_bind (ext_call (Call ''page.refresh'' []) (page_refresh sys page)) (\<lambda>_.
                io_bind (sleep sys 3) (\<lambda>_.
                get_topic_list sys page)))
              else io_return found) (\<lambda>topic_list.
     io_bind (ext_draw (random_randint sys 4 8)) (\<lambda>drawn.
       let topic_count = int (length topic_list);
           browse_count = min drawn topic_count
       in
         io_bind (logger INFO ''topics found, selecting some to browse'') (\<lambda>_.
         io_bind (ext_call (Call ''random.sample'' [])
                    (random_sample sys topic_list browse_count)) (\<lambda>selected_topics.
         topic_loop sys browse_count 0 selected_topics)))))"

section \<open>Session controller (class LinuxDoBrowser)\<close>

text \<open>The loop over \<^verbatim>\<open>user_click_selectors\<close> in \<^verbatim>\<open>verify_username\<close> (lines 501-516):
  \<open>True\<close> when it ended with \<^verbatim>\<open>return True\<close>.\<close>

fun user_menu_loop :: "'x sys \<Rightarrow> config \<Rightarrow> page \<Rightarrow> string list \<Rightarrow> (bool, 'x) io" where
  "user_menu_loop sys cfg page [] = io_return False"
| "user_menu_loop sys cfg page (selector # rest) =
     io_bind (find_ele sys page selector) (\<lambda>user_elem.
       if elem_truthy user_elem then
         io_bind (click sys user_elem) (\<lambda>_.
         io_bind (sleep sys 2) (\<lambda>_.
         io_bind (get_html sys page) (\<lambda>user_menu_content.
         io_bind (username_in sys cfg user_menu_content) (\<lambda>shown.
           if shown then
             io_bind (logger SUCCESS ''user name found in the user menu'') (\<lambda>_.
             io_bind (find_ele sys page ''body'') (\<lambda>body.
             io_bind (click sys body) (\<lambda>_.
             io_return True)))
           else
             io_bind (find_ele sys page ''body'') (\<lambda>body.
             io_bind (click sys body) (\<lambda>_.
             io_bind (sleep sys 1) (\<lambda>_.
             io_return False)))))))
       else user_menu_loop sys cfg page rest)"

text \<open>\<^verbatim>\<open>LinuxDoBrowser.verify_username\<close> (lines 490-521).\<close>

definition verify_username :: "'x sys \<Rightarrow> config \<Rightarrow> page \<Rightarrow> (bool, 'x) io" where
  "verify_username sys cfg page =
     io_bind (get_html sys page) (\<lambda>page_content.
     io_bind (username_in sys cfg page_content) (\<lambda>shown.
       if shown then
         io_bind (logger SUCCESS ''user name found in the page content'') (\<lambda>_.
         io_return True)
       else
         io_bind (io_try
                    (user_menu_loop sys cfg page
                       [''img.avatar'', ''.current-user'', ''[data-user-menu]'',
                        ''.header-dropdown-toggle''])
                    (\<lambda>e. io_return False)) (\<lambda>found.
           if found then io_return True
           else
             io_bind (logger WARNING ''user element found but user name not verified'') (\<lambda>_.
             io_return False))))"

definition user_indicators :: "string list" where
  "user_indicators =
     [''#current-user'', ''#toggle-current-user'', ''.header-dropdown-toggle.current-user'',
      ''img.avatar'', ''.user-menu'', ''[data-user-menu]'']"

text \<open>The second selector holds the two characters U+767B U+5F55, here in UTF-8.\<close>

definition login_buttons :: "string list" where
  "login_buttons =
     [''.login-button'',
      ''button:has-text('' @ [CHR 0x22, CHR 0xE7, CHR 0x99, CHR 0xBB, CHR 0xE5, CHR 0xBD,
                               CHR 0x95, CHR 0x22] @ '')'',
      ''button:has-text('' @ [CHR 0x22] @ ''Log In'' @ [CHR 0x22] @ '')'',
      ''.btn.btn-icon-text.login-button'']"

text \<open>The loop over \<^verbatim>\<open>user_indicators\<close> (lines 448-455): \<open>Some b\<close> when it ended with
  \<^verbatim>\<open>return b\<close>. An exception of the probe, or of \<^verbatim>\<open>verify_username\<close>, goes on to the
  next selector.\<close>

fun user_indicator_loop ::
  "'x sys \<Rightarrow> config \<Rightarrow> page \<Rightarrow> string list \<Rightarrow> (bool option, 'x) io" where
  "user_indicator_loop sys cfg page [] = io_return None"
| "user_indicator_loop sys cfg page (selector # rest) =
     io_bind
       (io_try
          (io_bind (find_ele sys page selector) (\<lambda>user_elem.
             if elem_truthy user_elem then
               io_bind (logger SUCCESS (''user element found: '' @ selector)) (\<lambda>_.
               io_bind (verify_username sys cfg page) (\<lambda>b.
               io_return (Some b)))
             else io_return None))
          (\<lambda>e. io_return None))
       (\<lambda>r. case r of
              Some b \<Rightarrow> io_return (Some b)
            | None \<Rightarrow> user_indicator_loop sys cfg page rest)"

text \<open>The loop over \<^verbatim>\<open>login_buttons\<close> (lines 463-470): \<open>True\<close> when it ended with
  \<^verbatim>\<open>return False\<close>, that is, when a login button was found.\<close>

fun login_button_loop :: "'x sys \<Rightarrow> page \<Rightarrow> string list \<Rightarrow> (bool, 'x) io" where
  "login_button_loop sys page [] = io_return False"
| "login_button_loop sys page (selector # rest) =
     io_bind
       (io_try
          (io_bind (find_ele sys page selector) (\<lambda>login_btn.
             if elem_truthy login_btn then
               io_bind (logger WARNING (''login button found: '' @ selector)) (\<lambda>_.
               io_return True)
             else io_return False))
          (\<lambda>e. io_return False))
       (\<lambda>found. if found then io_return True else login_button_loop sys page rest)"

text \<open>The fallback of \<^verbatim>\<open>check_login_status\<close> (lines 472-484), reached when neither loop
  returned.\<close>

definition login_fallback :: "'x sys \<Rightarrow> config \<Rightarrow> page \<Rightarrow> (bool, 'x) io" where
  "login_fallback sys cfg page =
     io_bind (get_html sys page) (\<lambda>page_content.
     io_bind (get_title sys page) (\<lambda>title1.
     io_bind (if sublist WAIT_WORD title1 then io_return False
              else io_bind (get_title sys page) (\<lambda>title2.
                   io_return (\<not> sublist (u ''Checking'') title2))) (\<lambda>no_interstitial.
     io_bind (if no_interstitial then
                io_bind (username_in sys cfg page_content) (\<lambda>shown.
                  if shown then
                    io_bind (logger SUCCESS ''user name found in the page content'') (\<lambda>_.
                    io_return True)
                  else if length page_content > 1000 then
                    io_bind (logger SUCCESS ''page shows normal content, probably logged in'')
                      (\<lambda>_. io_return True)
                  else io_return False)
              else io_return False) (\<lambda>decided.
       if decided then io_return True
       else
         io_bind (get_title sys page) (\<lambda>title3.
         io_bind (logger WARNING ''login status uncertain, assuming not logged in'') (\<lambda>_.
         io_return False))))))"

text \<open>\<^verbatim>\<open>LinuxDoBrowser.check_login_status\<close> (lines 439-488).\<close>

definition check_login_status :: "'x sys \<Rightarrow> config \<Rightarrow> page \<Rightarrow> (bool, 'x) io" where
  "check_login_status sys cfg page =
     io_try
       (io_bind (user_indicator_loop sys cfg page user_indicators) (\<lambda>r.
          case r of
            Some b \<Rightarrow> io_return b
          | None \<Rightarrow>
              io_bind (login_button_loop sys page login_buttons) (\<lambda>found.
                if found then io_return False
                else login_fallback sys cfg page)))
       (\<lambda>e. io_bind (logger WARNING (''error while checking the login status: '' @ e)) (\<lambda>_.
             io_return False))"

text \<open>\<^verbatim>\<open>d.update({...})\<close> with the three keys of \<^verbatim>\<open>save_all_caches\<close>.\<close>

fun dict_update :: "json \<Rightarrow> (string \<times> json) list \<Rightarrow> string + json" where
  "dict_update (JObj kvs) new = Inr (JObj (fold (\<lambda>(k, v). AList.update k v) new kvs))"
| "dict_update _ new = Inl ''AttributeError''"

text \<open>\<^verbatim>\<open>LinuxDoBrowser.save_all_caches\<close> (lines 367-386).\<close>

definition save_all_caches :: "'x sys \<Rightarrow> (unit, 'x) io" where
  "save_all_caches sys =
     io_try
       (io_bind (ext_call (Call ''browser.cookies'' []) (browser_cookies sys)) (\<lambda>cookies.
        io_bind (if truthy cookies
                 then io_bind (save_cookies sys cookies) (\<lambda>_. io_return ())
                 else io_return ()) (\<lambda>_.
        io_bind get_session_data (\<lambda>sd.
        io_bind (datetime_now_isoformat sys) (\<lambda>t1.
        io_bind (datetime_now_isoformat sys) (\<lambda>t2.
        io_bind (lift_result (dict_update sd
                   [(''last_success'', JStr t1), (''login_status'', JStr ''success''),
                    (''last_updated'', JStr t2)])) (\<lambda>sd'.
        io_bind (set_session_data sd') (\<lambda>_.
        io_bind (save_session sys sd') (\<lambda>_.
        io_bind (logger INFO ''all caches saved'') (\<lambda>_.
        set_cache_saved True))))))))))
       (\<lambda>e. logger ERROR (''saving the caches failed: '' @ e))"

text \<open>The loop of \<^verbatim>\<open>clear_caches\<close> (lines 392-395).\<close>

fun clear_loop :: "'x sys \<Rightarrow> string list \<Rightarrow> (unit, 'x) io" where
  "clear_loop sys [] = io_return ()"
| "clear_loop sys (file_name # rest) =
     io_bind (os_path_exists file_name) (\<lambda>ex.
     io_bind (if ex then
                io_bind (os_remove sys file_name) (\<lambda>_.
                logger INFO (''cache cleared: '' @ file_name))
              else io_return ()) (\<lambda>_.
     clear_loop sys rest))"

text \<open>\<^verbatim>\<open>LinuxDoBrowser.clear_caches\<close> (lines 388-401).\<close>

definition clear_caches :: "'x sys \<Rightarrow> (unit, 'x) io" where
  "clear_caches sys =
     io_try
       (io_bind (clear_loop sys [''linuxdo_cookies.json'', ''linuxdo_session.json'']) (\<lambda>_.
        io_bind (set_session_data (JObj [])) (\<lambda>_.
        logger INFO ''all caches cleared'')))
       (\<lambda>e. logger ERROR (''clearing the caches failed: '' @ e))"

text \<open>\<^verbatim>\<open>LinuxDoBrowser.try_cache_first_approach\<close> (lines 403-437).\<close>

definition try_cache_first_approach :: "'x sys \<Rightarrow> config \<Rightarrow> page \<Rightarrow> (bool, 'x) io" where
  "try_cache_first_approach sys cfg page =
     io_try
       (io_bind (load_cookies sys) (\<lambda>cached_cookies.
        io_bind (is_cf_cookie_valid sys
                   (if truthy cached_cookies then cached_cookies else JArr []))
          (\<lambda>cached_cf_valid.
          if cached_cf_valid then
            io_bind (logger INFO ''valid Cloudflare cache found, trying direct access'') (\<lambda>_.
            io_bind (if truthy cached_cookies then set_cookies sys page cached_cookies
                     else io_return ()) (\<lambda>_.
            io_bind (navigate sys page HOME_URL) (\<lambda>_.
            io_bind (sleep sys 5) (\<lambda>_.
            io_bind (check_login_status sys cfg page) (\<lambda>login_status.
              if login_status then
                io_bind (logger SUCCESS ''cache-first flow succeeded, logged in'') (\<lambda>_.
                io_return True)
              else
                io_bind (logger WARNING ''Cloudflare cache valid but not logged in'') (\<lambda>_.
                io_return False))))))
          else
            io_bind (logger INFO ''no valid Cloudflare cache'') (\<lambda>_.
            io_return False))))
       (\<lambda>e. io_bind (logger ERROR (''cache-first flow exception: '' @ e)) (\<lambda>_.
             io_return False))"

text \<open>The body of one iteration of \<^verbatim>\<open>getTurnstileToken\<close> (lines 529-544): \<open>Some t\<close> when
  it ended with \<^verbatim>\<open>return turnstileResponse\<close>.\<close>

definition turnstile_iteration :: "'x sys \<Rightarrow> page \<Rightarrow> (json option, 'x) io" where
  "turnstile_iteration sys page =
     io_bind
       (io_try
          (io_bind (run_js sys page ''try { return turnstile.getResponse() } catch(e) { return null }'')
             (\<lambda>turnstileResponse.
             if truthy turnstileResponse then io_return (Some turnstileResponse)
             else
               io_bind (find_ele sys page ''@name=cf-turnstile-response'') (\<lambda>challengeSolution.
               io_bind (ext_call (Call ''parent'' []) (elem_parent sys challengeSolution))
                 (\<lambda>challengeWrapper.
               io_bind (ext_call (Call ''shadow_root'' []) (elem_shadow_root sys challengeWrapper))
                 (\<lambda>wrapperRoot.
               io_bind (ext_call (Call ''ele'' ''tag:iframe'') (elem_ele sys wrapperRoot ''tag:iframe''))
                 (\<lambda>challengeIframe.
               io_bind (ext_call (Call ''ele'' ''tag:body'') (elem_ele sys challengeIframe ''tag:body''))
                 (\<lambda>iframeBody.
               io_bind (ext_call (Call ''shadow_root'' []) (elem_shadow_root sys iframeBody))
                 (\<lambda>challengeIframeBody.
               io_bind (ext_call (Call ''ele'' ''tag:input'') (elem_ele sys challengeIframeBody ''tag:input''))
                 (\<lambda>challengeButton.
               io_bind (click sys challengeButton) (\<lambda>_.
               io_return None))))))))))
          (\<lambda>e. io_bind (logger WARNING (''error while handling Turnstile: '' @ e)) (\<lambda>_.
                io_return None)))
       (\<lambda>r. case r of
              Some t \<Rightarrow> io_return (Some t)
            | None \<Rightarrow> io_bind (sleep sys 1) (\<lambda>_. io_return None))"

fun turnstile_loop :: "'x sys \<Rightarrow> page \<Rightarrow> nat list \<Rightarrow> (json, 'x) io" where
  "turnstile_loop sys page [] = io_return JNull"
| "turnstile_loop sys page (i # rest) =
     io_bind (turnstile_iteration sys page) (\<lambda>r.
       case r of
         Some t \<Rightarrow> io_return t
       | None \<Rightarrow> turnstile_loop sys page rest)"

text \<open>\<^verbatim>\<open>LinuxDoBrowser.getTurnstileToken\<close> (lines 523-544).\<close>

definition getTurnstileToken :: "'x sys \<Rightarrow> page \<Rightarrow> (json, 'x) io" where
  "getTurnstileToken sys page =
     io_bind (run_js sys page ''try { turnstile.reset() } catch(e) { }'') (\<lambda>_.
     turnstile_loop sys page [0..<5])"

text \<open>\<^verbatim>\<open>LinuxDoBrowser.login\<close> (lines 546-581).\<close>

definition login :: "'x sys \<Rightarrow> config \<Rightarrow> page \<Rightarrow> (bool, 'x) io" where
  "login sys cfg page =
     io_bind (try_cache_first_approach sys cfg page) (\<lambda>cache_success.
       if cache_success then
         io_bind (logger SUCCESS ''cache login succeeded'') (\<lambda>_.
         io_bind get_cache_saved (\<lambda>saved.
         io_bind (if \<not> saved then save_all_caches sys else io_return ()) (\<lambda>_.
         io_return True)))
       else
         io_bind (logger INFO ''starting login'') (\<lambda>_.
         io_bind (navigate sys page LOGIN_URL) (\<lambda>_.
         io_bind (sleep sys 2) (\<lambda>_.
         io_bind (handle_cloudflare sys page 8 180) (\<lambda>cf_success.
         io_bind (if \<not> cf_success
                  then logger WARNING ''Cloudflare possibly not passed, login continues''
                  else io_return ()) (\<lambda>_.
         io_bind (getTurnstileToken sys page) (\<lambda>turnstile_token.
         io_bind (logger INFO ''turnstile_token'') (\<lambda>_.
         io_bind (find_ele sys page ''@id=login-account-name'') (\<lambda>name_box.
         io_bind (ext_call (Call ''input'' ''USERNAME'') (elem_input sys name_box (USERNAME cfg)))
           (\<lambda>_.
         io_bind (find_ele sys page ''@id=login-account-password'') (\<lambda>password_box.
         io_bind (ext_call (Call ''input'' ''PASSWORD'')
                    (elem_input sys password_box (PASSWORD cfg))) (\<lambda>_.
         io_bind (find_ele sys page ''@id=login-button'') (\<lambda>button.
         io_bind (click sys button) (\<lambda>_.
         io_bind (sleep sys 10) (\<lambda>_.
         io_bind (check_login_status sys cfg page) (\<lambda>login_success.
           if login_success then
             io_bind (logger INFO ''login succeeded'') (\<lambda>_.
             io_bind get_cache_saved (\<lambda>saved.
             io_bind (if \<not> saved then save_all_caches sys else io_return ()) (\<lambda>_.
             io_return True)))
           else
             io_bind (logger ERROR ''login failed'') (\<lambda>_.
             io_return False)))))))))))))))))"

text \<open>\<^verbatim>\<open>d.get('total_browsed', 0) + 1\<close>\<close>

fun py_add_one :: "json \<Rightarrow> string + json" where
  "py_add_one (JNum r) = Inr (JNum (r + 1))"
| "py_add_one (JBool b) = Inr (JNum ((if b then 1 else 0) + 1))"
| "py_add_one _ = Inl ''TypeError''"

text \<open>The browsing part of \<^verbatim>\<open>run\<close> (lines 799-807).\<close>

definition run_browse :: "'x sys \<Rightarrow> page \<Rightarrow> (unit, 'x) io" where
  "run_browse sys page =
     io_bind (click_topic sys page) (\<lambda>_.
     io_bind (logger INFO ''browsing finished'') (\<lambda>_.
     io_bind (datetime_now_isoformat sys) (\<lambda>stamp.
     io_bind (session_setitem ''last_browse'' (JStr stamp)) (\<lambda>_.
     io_bind get_session_data (\<lambda>sd.
     io_bind (lift_result (dict_get sd ''total_browsed'' (JNum 0))) (\<lambda>n.
     io_bind (lift_result (py_add_one n)) (\<lambda>n1.
     io_bind (session_setitem ''total_browsed'' n1) (\<lambda>_.
     io_bind get_cache_saved (\<lambda>saved.
       if \<not> saved then save_all_caches sys else io_return ())))))))))"

text \<open>\<^verbatim>\<open>LinuxDoBrowser.run\<close> (lines 792-811). \<^verbatim>\<open>sys.exit(1)\<close> raises
  \<^verbatim>\<open>SystemExit(1)\<close>. \<^verbatim>\<open>print_connect_info\<close> (the report of lines 813-836) works on
  the browser and standard output only and is an operation of \<open>sys\<close>.\<close>

definition run :: "'x sys \<Rightarrow> config \<Rightarrow> page \<Rightarrow> (unit, 'x) io" where
  "run sys cfg page =
     io_bind (login sys cfg page) (\<lambda>logged_in.
     io_bind (if \<not> logged_in then
                io_bind (logger ERROR ''login failed, terminating'') (\<lambda>_.
                io_bind (clear_caches sys) (\<lambda>_.
                io_raise (SystemExit 1)))
              else io_return ()) (\<lambda>_.
     io_bind (if BROWSE_ENABLED cfg then run_browse sys page else io_return ()) (\<lambda>_.
     io_bind (ext_call (Call ''print_connect_info'' []) (print_connect_info sys)) (\<lambda>_.
     io_bind (ext_call (Call ''page.close'' []) (page_close sys page)) (\<lambda>_.
     ext_call (Call ''browser.quit'' []) (browser_quit sys))))))"

text \<open>\<^verbatim>\<open>LinuxDoBrowser.__init__\<close> (lines 229-266) with \<^verbatim>\<open>inject_enhanced_script\<close>
  (lines 268-365): launching the browser and opening the tab is one operation of
  \<open>sys\<close> that yields the page; the injected script is named, not spelled out.\<close>

definition init :: "'x sys \<Rightarrow> (page, 'x) io" where
  "init sys =
     io_bind (ext_call (Call ''Chromium'' []) (browser_launch sys)) (\<lambda>page.
     io_bind (load_session sys) (\<lambda>sd.
     io_bind (set_session_data sd) (\<lambda>_.
     io_bind (set_cache_saved False) (\<lambda>_.
     io_bind (io_try
                (io_bind (run_js sys page ''enhanced_script'') (\<lambda>_.
                 logger INFO ''anti-detection script injected''))
                (\<lambda>e. logger WARNING (''injecting the script failed: '' @ e))) (\<lambda>_.
     io_return page)))))"

text \<open>The main block (lines 839-847), given the environment variables.\<close>

definition main :: "'x sys \<Rightarrow> (string \<Rightarrow> ustr option) \<Rightarrow> (unit, 'x) io" where
  "main sys getenv =
     (let cfg = module_config sys getenv in
      if env_falsy (USERNAME cfg) \<or> env_falsy (PASSWORD cfg) then
        io_bind (emit (Print ''Please set LINUXDO_USERNAME and LINUXDO_PASSWORD environment variables''))
          (\<lambda>_. io_raise (SystemExit 1))
      else
        io_bind (logger INFO ''LinuxDo automation script started'') (\<lambda>_.
        io_bind (init sys) (\<lambda>page.
        io_bind (run sys cfg page) (\<lambda>_.
        logger INFO ''script finished''))))"

text \<open>The exit status of the process: 0 when the main block ends, the argument of
  \<^verbatim>\<open>SystemExit\<close>, and 1 for an uncaught exception.\<close>

fun exit_code :: "exn + unit \<Rightarrow> int" where
  "exit_code (Inr _) = 0"
| "exit_code (Inl (SystemExit c)) = c"
| "exit_code (Inl (Exception e)) = 1"

section \<open>Notions used to state the properties\<close>

text \<open>A cookie entry as the cookie set of the cache holds it: a dict whose \<^verbatim>\<open>expires\<close>,
  when present, is a number.\<close>

fun is_cookie :: "json \<Rightarrow> bool" where
  "is_cookie (JObj kvs) =
     (case map_of kvs ''expires'' of None \<Rightarrow> True | Some (JNum r) \<Rightarrow> True | Some _ \<Rightarrow> False)"
| "is_cookie _ = False"

text \<open>An entry named \<^verbatim>\<open>cf_clearance\<close> whose \<^verbatim>\<open>expires\<close> is -1 or later than \<open>now\<close>.\<close>

fun clearance_valid :: "real \<Rightarrow> json \<Rightarrow> bool" where
  "clearance_valid now (JObj kvs) =
     (map_of kvs ''name'' = Some (JStr ''cf_clearance'') \<and>
      (case map_of kvs ''expires'' of Some (JNum r) \<Rightarrow> r = - 1 \<or> r > now | _ \<Rightarrow> False))"
| "clearance_valid now _ = False"

text \<open>A Python function that raises nothing but \<^verbatim>\<open>Exception\<close>s, and one that always
  returns.\<close>

definition only_exceptions :: "('a, 'x) io \<Rightarrow> bool" where
  "only_exceptions m \<longleftrightarrow> (\<forall>w c. fst (m w) \<noteq> Inl (SystemExit c))"

definition returns :: "('a, 'x) io \<Rightarrow> bool" where
  "returns m \<longleftrightarrow> (\<forall>w. \<exists>v. fst (m w) = Inr v)"

text \<open>A property of the world that a function leaves as it is.\<close>

definition preserves :: "('x world \<Rightarrow> bool) \<Rightarrow> ('a, 'x) io \<Rightarrow> bool" where
  "preserves P m \<longleftrightarrow> (\<forall>w. P w \<longrightarrow> P (snd (m w)))"

text \<open>The warning that \<^verbatim>\<open>login\<close> logs when \<^verbatim>\<open>handle_cloudflare\<close> returned a false
  value (line 563).\<close>

definition cf_warning :: event where
  "cf_warning = Log WARNING ''Cloudflare possibly not passed, login continues''"

text \<open>The world after the exception handler of the retry wrapper ran in \<open>w\<close> for an
  exception described by \<open>e\<close>: the failure is logged (an ERROR first when it was the
  last attempt), then one second is slept.\<close>

definition after_failure :: "'x sys \<Rightarrow> string \<Rightarrow> string \<Rightarrow> bool \<Rightarrow> 'x world \<Rightarrow> 'x world" where
  "after_failure sys fname e last_attempt w =
     w\<lparr>ext := time_sleep sys 1 (ext w),
       trace := trace w
         @ (if last_attempt then [Log ERROR (''function '' @ fname @ '' finally failed: '' @ e)]
            else [])
         @ [Log WARNING (''function '' @ fname @ '' attempt failed: '' @ e), Sleep 1]\<rparr>"

text \<open>The browse history held by the session data: empty when the key is missing,
  undefined when the session data is not a dict or the entry is not a list.\<close>

fun browse_history_of :: "json \<Rightarrow> json list option" where
  "browse_history_of (JObj sd) =
     (case map_of sd ''browse_history'' of
        None \<Rightarrow> Some []
      | Some (JArr xs) \<Rightarrow> Some xs
      | Some _ \<Rightarrow> None)"
| "browse_history_of _ = None"


text \<open>A function that, in every world, returns a value with a given property.\<close>

definition yields :: "('a \<Rightarrow> bool) \<Rightarrow> ('a, 'x) io \<Rightarrow> bool" where
  "yields Q m \<longleftrightarrow> (\<forall>w. \<exists>v. fst (m w) = Inr v \<and> Q v)"
section \<open>Scripted environments for concrete runs\<close>

text \<open>An environment whose external state is the clock alone: sleeping advances it,
  the browser answers at once and always the same, nothing fails. The concrete runs
  below vary single operations of it.\<close>

definition base_sys :: "real sys" where
  "base_sys =
     \<lparr>clock = (\<lambda>x. x),
      time_sleep = (\<lambda>d x. x + d),
      random_uniform = (\<lambda>a b x. (a, x)),
      random_randint = (\<lambda>a b x. (a, x)),
      random_random = (\<lambda>x. (1 / 2, x)),
      random_sample = (\<lambda>xs k x. (Inr (take (nat k) xs), x)),
      isoformat_now = (\<lambda>x. ''2024-01-01T00:00:00''),
      io_fault = (\<lambda>c x. False),
      fs_write = (\<lambda>f x. (x, x)),
      json_dumps = (\<lambda>d. ''{}''),
      json_loads = (\<lambda>s. Inl ''JSONDecodeError''),
      str_lower = (\<lambda>s. s),
      str_strip = (\<lambda>s. s),
      page_url = (\<lambda>p x. (Inr (u ''https://linux.do/''), x)),
      page_title = (\<lambda>p x. (Inr (u ''LINUX DO''), x)),
      page_html = (\<lambda>p x. (Inr (u ''<html></html>''), x)),
      page_get = (\<lambda>p url x. (Inr (), x)),
      page_set_cookies = (\<lambda>p c x. (Inr (), x)),
      page_ele = (\<lambda>p s x. (Inr NoneElement, x)),
      page_run_js = (\<lambda>p s x. (Inr JNull, x)),
      page_refresh = (\<lambda>p x. (Inr (), x)),
      page_close = (\<lambda>p x. (Inr (), x)),
      elem_click = (\<lambda>e x. (Inr (), x)),
      elem_input = (\<lambda>e s x. (Inr (), x)),
      elem_parent = (\<lambda>e x. (Inr NoneElement, x)),
      elem_shadow_root = (\<lambda>e x. (Inr NoneElement, x)),
      elem_ele = (\<lambda>e s x. (Inr NoneElement, x)),
      elem_eles = (\<lambda>e s x. (Inr [], x)),
      elem_attr = (\<lambda>e a x. (Inr JNull, x)),
      browser_cookies = (\<lambda>x. (Inr (JArr []), x)),
      browser_new_tab = (\<lambda>x. (Inr 1, x)),
      browser_quit = (\<lambda>x. (Inr (), x)),
      browser_launch = (\<lambda>x. (Inr 0, x)),
      trigger_statistical_events = (\<lambda>p x. x),
      enhanced_browse_post = (\<lambda>p x. (Inr (), x)),
      click_like = (\<lambda>p x. x),
      print_connect_info = (\<lambda>x. (Inr (), x))\<rparr>"

text \<open>A world at time 1000 with no cache files.\<close>

definition cold_world :: "real world" where
  "cold_world =
     \<lparr>ext = 1000, files = (\<lambda>f. None), trace = [], session_data = JObj [], cache_saved = False\<rparr>"

text \<open>A cookie set whose clearance cookie expired 10 seconds before time 1000, an
  environment whose JSON decoder reads it from any file, and a world whose cookie cache
  exists.\<close>

definition expired_cookies :: "json list" where
  "expired_cookies =
     [JObj [(''name'', JStr ''_t''), (''value'', JStr ''s1''), (''expires'', JNum 2000)],
      JObj [(''name'', JStr ''cf_clearance''), (''value'', JStr ''s2''), (''expires'', JNum 990)]]"

definition expired_sys :: "real sys" where
  "expired_sys = base_sys\<lparr>json_loads := (\<lambda>s. Inr (JObj [(''data'', JArr expired_cookies)]))\<rparr>"

definition cached_world :: "real world" where
  "cached_world =
     cold_world\<lparr>files := (\<lambda>f. if f = ''linuxdo_cookies.json''
                                then Some \<lparr>content = ''{}'', mtime = 900\<rparr> else None)\<rparr>"

text \<open>An environment whose JSON decoder rejects every file, one whose write of the
  session cache fails, and one whose codec writes and reads back one document.\<close>

definition write_fault_sys :: "real sys" where
  "write_fault_sys = base_sys\<lparr>io_fault := (\<lambda>c x. c = Write ''linuxdo_session.json'')\<rparr>"

definition session_payload :: json where
  "session_payload = JObj [(''login_status'', JStr ''success''), (''total_browsed'', JNum 3)]"

definition session_doc :: json where
  "session_doc =
     JObj [(''data'', session_payload),
           (''cache_timestamp'', JStr ''2024-01-01T00:00:00''),
           (''cache_version'', JStr ''1.0''),
           (''file_created'', JNum 1000)]"

definition codec_sys :: "real sys" where
  "codec_sys =
     base_sys\<lparr>json_dumps := (\<lambda>d. if d = session_doc then ''session'' else ''other''),
              json_loads := (\<lambda>s. if s = ''session'' then Inr session_doc
                                   else Inl ''JSONDecodeError'')\<rparr>"

text \<open>An environment whose disk is slow: a write takes two seconds and the file system
  stamps the file one second after the write began; and one in which, moreover,
  \<^verbatim>\<open>os.utime\<close> fails on the session cache.\<close>

definition slow_disk_sys :: "real sys" where
  "slow_disk_sys = codec_sys\<lparr>fs_write := (\<lambda>f x. (x + 1, x + 2))\<rparr>"

definition no_touch_sys :: "real sys" where
  "no_touch_sys = slow_disk_sys\<lparr>io_fault := (\<lambda>c x. c = Utime ''linuxdo_session.json'')\<rparr>"

text \<open>A topic element whose link is \<^verbatim>\<open>/t/topic/51\<close>, and a world whose browse history
  already holds 50 entries.\<close>

definition href_sys :: "real sys" where
  "href_sys = base_sys\<lparr>elem_attr := (\<lambda>e a x. (Inr (JStr ''/t/topic/51''), x))\<rparr>"

definition full_history_world :: "real world" where
  "full_history_world =
     cold_world\<lparr>session_data :=
       JObj [(''browse_history'', JArr (JStr ''/t/topic/1'' # replicate 49 (JStr ''/t/topic/2'')))]\<rparr>"

text \<open>An environment whose browser has lost the page: reading the title takes 100
  seconds and then raises.\<close>

definition stuck_sys :: "real sys" where
  "stuck_sys = base_sys\<lparr>page_title := (\<lambda>p x. (Inl ''PageDisconnectedError'', x + 100))\<rparr>"

text \<open>An environment whose page stays on the interstitial and answers a read of the
  title after 100 seconds.\<close>

definition waiting_sys :: "real sys" where
  "waiting_sys = base_sys\<lparr>page_title := (\<lambda>p x. (Inr WAIT_TITLE, x + 100))\<rparr>"

text \<open>A configuration with credentials; an environment whose page is long and shows
  neither a user element nor a login button; one whose element probes all raise and
  whose page is empty.\<close>

definition neo_cfg :: config where
  "neo_cfg = \<lparr>USERNAME = Some (u ''neo''), PASSWORD = Some (u ''secret''), BROWSE_ENABLED = True\<rparr>"



text \<open>An environment whose browser cannot open a tab, with topic links
  \<^verbatim>\<open>/t/topic/7\<close>, and one whose browser cannot open a tab before time 1002;
  functions that always raise, that fail once before they return 41, and that fail
  twice before they return 42 (the number of earlier attempts is read off the log).\<close>

definition no_tab_sys :: "real sys" where
  "no_tab_sys =
     base_sys\<lparr>browser_new_tab := (\<lambda>x. (Inl ''BrowserConnectError'', x)),
              elem_attr := (\<lambda>e a x. (Inr (JStr ''/t/topic/7''), x))\<rparr>"

definition flaky_tab_sys :: "real sys" where
  "flaky_tab_sys =
     base_sys\<lparr>browser_new_tab :=
                (\<lambda>x. if x < 1002 then (Inl ''BrowserConnectError'', x) else (Inr 1, x)),
              elem_attr := (\<lambda>e a x. (Inr (JStr ''/t/topic/7''), x))\<rparr>"

definition always_fails :: "(nat, real) io" where
  "always_fails = io_raise (Exception ''boom'')"

definition second_time_lucky :: "(nat, real) io" where
  "second_time_lucky w =
     (if length (trace w) < 2 then (Inl (Exception ''boom''), w) else (Inr 41, w))"

definition third_time_lucky :: "(nat, real) io" where
  "third_time_lucky w =
     (if length (trace w) < 4 then (Inl (Exception ''boom''), w) else (Inr 42, w))"


text \<open>A world in which both cache files exist, and the environment variables of a
  configured run.\<close>

definition both_caches_world :: "real world" where
  "both_caches_world =
     cold_world\<lparr>files := (\<lambda>f. if f = ''linuxdo_cookies.json'' \<or> f = ''linuxdo_session.json''
                                then Some \<lparr>content = ''{}'', mtime = 900\<rparr> else None)\<rparr>"

definition neo_env :: "string \<Rightarrow> ustr option" where
  "neo_env name =
     (if name = ''LINUXDO_USERNAME'' then Some (u ''neo'')
      else if name = ''LINUXDO_PASSWORD'' then Some (u ''secret'')
      else None)"
section \<open>Basic facts about the embedding\<close>

lemmas io_defs = io_return_def io_raise_def io_bind_def io_try_def io_finally_def emit_def
  logger_def ext_call_def ext_step_def ext_draw_def time_time_def sleep_def lift_result_def

lemmas fs_defs = os_path_exists_def os_path_getmtime_def os_path_getsize_def os_utime_def
  os_remove_def read_json_def write_json_def datetime_now_isoformat_def

lemmas result_splits = option.splits sum.splits exn.splits prod.splits if_splits


lemma io_bind_eq: "m w = (Inr v, w') \<Longrightarrow> io_bind m f w = f v w'"
  by (simp add: io_bind_def)

lemma io_bind_raise: "m w = (Inl e, w') \<Longrightarrow> io_bind m f w = (Inl e, w')"
  by (simp add: io_bind_def)

subsection \<open>Functions that raise only exceptions, functions that always return\<close>

named_theorems oe \<open>rules for only_exceptions\<close>
named_theorems rt \<open>rules for returns\<close>

lemma returns_only_exceptions: "returns m \<Longrightarrow> only_exceptions m"
  by (auto simp: returns_def only_exceptions_def) (metis Inl_Inr_False)


lemma oe_return [oe]: "only_exceptions (io_return v)"
  by (simp add: only_exceptions_def io_defs)

lemma oe_raise [oe]: "only_exceptions (io_raise (Exception e))"
  by (simp add: only_exceptions_def io_defs)

lemma oe_bind [oe]:
  "only_exceptions m \<Longrightarrow> (\<And>v. only_exceptions (f v)) \<Longrightarrow> only_exceptions (io_bind m f)"
  by (auto simp: only_exceptions_def io_bind_def split: prod.splits sum.splits) (metis fst_conv)+

lemma oe_try [oe]:
  "only_exceptions m \<Longrightarrow> (\<And>e. only_exceptions (h e)) \<Longrightarrow> only_exceptions (io_try m h)"
  by (auto simp: only_exceptions_def io_try_def split: prod.splits sum.splits exn.splits)
     (metis fst_conv)+

lemma oe_finally [oe]:
  "only_exceptions m \<Longrightarrow> only_exceptions fin \<Longrightarrow> only_exceptions (io_finally m fin)"
  by (auto simp: only_exceptions_def io_finally_def split: prod.splits sum.splits)
     (metis fst_conv)+

lemma oe_if [oe]:
  "only_exceptions m \<Longrightarrow> only_exceptions n \<Longrightarrow> only_exceptions (if b then m else n)"
  by simp

lemma oe_case_option [oe]:
  "only_exceptions m \<Longrightarrow> (\<And>v. only_exceptions (f v)) \<Longrightarrow>
   only_exceptions (case r of None \<Rightarrow> m | Some v \<Rightarrow> f v)"
  by (cases r) auto

lemma oe_case_prod [oe]:
  "(\<And>a b. only_exceptions (f a b)) \<Longrightarrow> only_exceptions (case p of (a, b) \<Rightarrow> f a b)"
  by (cases p) auto

lemma oe_prims [oe]:
  "only_exceptions (emit ev)"
  "only_exceptions (logger l msg)"
  "only_exceptions (ext_call ev oper)"
  "only_exceptions (ext_step ev oper')"
  "only_exceptions (ext_draw oper'')"
  "only_exceptions (time_time sys)"
  "only_exceptions (sleep sys d)"
  "only_exceptions (lift_result r)"
  "only_exceptions (datetime_now_isoformat sys)"
  "only_exceptions (os_path_exists f)"
  "only_exceptions (os_path_getmtime sys f)"
  "only_exceptions (os_path_getsize sys f)"
  "only_exceptions (os_utime sys f t)"
  "only_exceptions (os_remove sys f)"
  "only_exceptions (read_json sys f)"
  "only_exceptions (write_json sys f doc)"
  "only_exceptions get_session_data"
  "only_exceptions (set_session_data sd)"
  "only_exceptions get_cache_saved"
  "only_exceptions (set_cache_saved c)"
  by (auto simp: only_exceptions_def io_defs fs_defs get_session_data_def set_session_data_def
      get_cache_saved_def set_cache_saved_def Let_def split: result_splits)

lemma rt_return [rt]: "returns (io_return v)"
  by (simp add: returns_def io_defs)

lemma rt_bind [rt]: "returns m \<Longrightarrow> (\<And>v. returns (f v)) \<Longrightarrow> returns (io_bind m f)"
  unfolding returns_def io_bind_def
  by (auto split: prod.splits sum.splits) (metis Inl_Inr_False fst_conv)

lemma rt_try [rt]:
  "only_exceptions m \<Longrightarrow> (\<And>e. returns (h e)) \<Longrightarrow> returns (io_try m h)"
  unfolding returns_def only_exceptions_def io_try_def
  by (auto split: prod.splits sum.splits exn.splits) (metis fst_conv)

lemma rt_if [rt]: "returns m \<Longrightarrow> returns n \<Longrightarrow> returns (if b then m else n)"
  by simp

lemma rt_case_option [rt]:
  "returns m \<Longrightarrow> (\<And>v. returns (f v)) \<Longrightarrow> returns (case r of None \<Rightarrow> m | Some v \<Rightarrow> f v)"
  by (cases r) auto

lemma rt_case_prod [rt]:
  "(\<And>a b. returns (f a b)) \<Longrightarrow> returns (case p of (a, b) \<Rightarrow> f a b)"
  by (cases p) auto

lemma rt_prims [rt]:
  "returns (emit ev)"
  "returns (logger l msg)"
  "returns (ext_step ev oper')"
  "returns (ext_draw oper'')"
  "returns (time_time sys)"
  "returns (sleep sys d)"
  "returns (datetime_now_isoformat sys)"
  "returns (os_path_exists f)"
  "returns get_session_data"
  "returns (set_session_data sd)"
  "returns get_cache_saved"
  "returns (set_cache_saved c)"
  by (auto simp: returns_def io_defs fs_defs get_session_data_def set_session_data_def
      get_cache_saved_def set_cache_saved_def split: result_splits)

subsection \<open>Properties of the world that functions preserve\<close>

named_theorems pv \<open>rules for preserves\<close>

lemma pv_return [pv]: "preserves P (io_return v)"
  by (simp add: preserves_def io_return_def)

lemma pv_raise [pv]: "preserves P (io_raise e)"
  by (simp add: preserves_def io_raise_def)

lemma pv_bind_val:
  "preserves P m \<Longrightarrow> (\<And>v. \<exists>w. fst (m w) = Inr v \<Longrightarrow> preserves P (f v)) \<Longrightarrow>
   preserves P (io_bind m f)"
  unfolding preserves_def io_bind_def
  by (auto split: prod.splits sum.splits) (metis fst_conv snd_conv)+

lemma pv_bind [pv]:
  "preserves P m \<Longrightarrow> (\<And>v. preserves P (f v)) \<Longrightarrow> preserves P (io_bind m f)"
  by (rule pv_bind_val)

lemma pv_try [pv]:
  "preserves P m \<Longrightarrow> (\<And>e. preserves P (h e)) \<Longrightarrow> preserves P (io_try m h)"
  unfolding preserves_def io_try_def
  by (auto split: prod.splits sum.splits exn.splits)

lemma pv_finally [pv]:
  "preserves P m \<Longrightarrow> preserves P fin \<Longrightarrow> preserves P (io_finally m fin)"
  unfolding preserves_def io_finally_def
  by (auto split: prod.splits sum.splits)

lemma pv_if [pv]: "preserves P m \<Longrightarrow> preserves P n \<Longrightarrow> preserves P (if b then m else n)"
  by simp

lemma pv_case_option [pv]:
  "preserves P m \<Longrightarrow> (\<And>v. preserves P (f v)) \<Longrightarrow>
   preserves P (case r of None \<Rightarrow> m | Some v \<Rightarrow> f v)"
  by (cases r) auto

lemma pv_case_prod [pv]:
  "(\<And>a b. preserves P (f a b)) \<Longrightarrow> preserves P (case p of (a, b) \<Rightarrow> f a b)"
  by (cases p) auto

lemma pv_pure [pv]:
  "preserves P (time_time sys)"
  "preserves P (lift_result r)"
  "preserves P (datetime_now_isoformat sys)"
  "preserves P (os_path_exists f)"
  "preserves P (os_path_getmtime sys f)"
  "preserves P (os_path_getsize sys f)"
  "preserves P (read_json sys f)"
  "preserves P get_session_data"
  "preserves P get_cache_saved"
  by (auto simp: preserves_def io_defs fs_defs get_session_data_def get_cache_saved_def
      split: result_splits)

text \<open>Rules for the property that an event has not been recorded.\<close>

lemma pv_trace_prims [pv]:
  "ev' \<noteq> ev \<Longrightarrow> preserves (\<lambda>w. ev \<notin> set (trace w)) (emit ev')"
  "Log l msg \<noteq> ev \<Longrightarrow> preserves (\<lambda>w. ev \<notin> set (trace w)) (logger l msg)"
  "ev' \<noteq> ev \<Longrightarrow> preserves (\<lambda>w. ev \<notin> set (trace w)) (ext_call ev' oper)"
  "ev' \<noteq> ev \<Longrightarrow> preserves (\<lambda>w. ev \<notin> set (trace w)) (ext_step ev' oper')"
  "preserves (\<lambda>w. ev \<notin> set (trace w)) (ext_draw oper'')"
  "Sleep d \<noteq> ev \<Longrightarrow> preserves (\<lambda>w. ev \<notin> set (trace w)) (sleep sys d)"
  "preserves (\<lambda>w. ev \<notin> set (trace w)) (os_utime sys f t)"
  "preserves (\<lambda>w. ev \<notin> set (trace w)) (os_remove sys f)"
  "preserves (\<lambda>w. ev \<notin> set (trace w)) (write_json sys f doc)"
  "preserves (\<lambda>w. ev \<notin> set (trace w)) (set_session_data sd)"
  "preserves (\<lambda>w. ev \<notin> set (trace w)) (set_cache_saved c)"
  by (auto simp: preserves_def io_defs fs_defs set_session_data_def set_cache_saved_def Let_def
      split: result_splits)

section \<open>Cache store\<close>

lemma load_cache_ext: "ext (snd (load_cache sys f w)) = ext w"
  by (auto simp: load_cache_def get_file_age_hours_def io_defs fs_defs split: result_splits)

lemma base_sys_simps:
  "clock base_sys = (\<lambda>x. x)"
  "fs_write base_sys = (\<lambda>f x. (x, x))"
  "io_fault base_sys = (\<lambda>c x. False)"
  "isoformat_now base_sys = (\<lambda>x. ''2024-01-01T00:00:00'')"
  "json_dumps base_sys = (\<lambda>d. ''{}'')"
  "json_loads base_sys = (\<lambda>s. Inl ''JSONDecodeError'')"
  by (simp_all add: base_sys_def)

lemma expired_sys_simps:
  "clock expired_sys = (\<lambda>x. x)"
  "fs_write expired_sys = (\<lambda>f x. (x, x))"
  "io_fault expired_sys = (\<lambda>c x. False)"
  "json_loads expired_sys = (\<lambda>s. Inr (JObj [(''data'', JArr expired_cookies)]))"
  by (simp_all add: expired_sys_def base_sys_def)

lemma codec_sys_simps:
  "clock codec_sys = (\<lambda>x. x)"
  "fs_write codec_sys = (\<lambda>f x. (x, x))"
  "io_fault codec_sys = (\<lambda>c x. False)"
  "isoformat_now codec_sys = (\<lambda>x. ''2024-01-01T00:00:00'')"
  "json_dumps codec_sys = (\<lambda>d. if d = session_doc then ''session'' else ''other'')"
  "json_loads codec_sys =
     (\<lambda>s. if s = ''session'' then Inr session_doc else Inl ''JSONDecodeError'')"
  by (simp_all add: codec_sys_def base_sys_def)

lemma write_fault_sys_simps:
  "clock write_fault_sys = (\<lambda>x. x)"
  "fs_write write_fault_sys = (\<lambda>f x. (x, x))"
  "io_fault write_fault_sys = (\<lambda>c x. c = Write ''linuxdo_session.json'')"
  "isoformat_now write_fault_sys = (\<lambda>x. ''2024-01-01T00:00:00'')"
  by (simp_all add: write_fault_sys_def base_sys_def)

text \<open>
  Claim C7. \<^verbatim>\<open>load_cache\<close> never raises: in every world it returns a value. When the
  file does not exist it returns \<^verbatim>\<open>None\<close> (and logs that at level INFO). When the file
  can be opened and its text does not deserialize it returns \<^verbatim>\<open>None\<close> and logs one
  WARNING that carries the decoder's message. When the file can be opened, its
  modification time can be read and its text deserializes to a JSON object, it
  returns the payload stored under \<^verbatim>\<open>data\<close> (the object itself when it has no such
  key). A document that is not a JSON object has no \<^verbatim>\<open>get\<close> method: the
  \<^verbatim>\<open>AttributeError\<close> is caught like a failed deserialization.
\<close>

theorem load_cache_contract:
  "(\<exists>v. fst (load_cache sys f w) = Inr v)
   \<and> (files w f = None \<longrightarrow>
        load_cache sys f w =
          (Inr JNull, w\<lparr>trace := trace w @ [Log INFO (''cache file does not exist: '' @ f)]\<rparr>))
   \<and> (\<forall>node m. files w f = Some node \<and> \<not> io_fault sys (OpenRead f) (ext w)
          \<and> json_loads sys (content node) = Inl m \<longrightarrow>
        load_cache sys f w =
          (Inr JNull,
           w\<lparr>trace := trace w @ [Log WARNING (''cache load failed '' @ f @ '': '' @ m)]\<rparr>))
   \<and> (\<forall>node doc. files w f = Some node \<and> \<not> io_fault sys (OpenRead f) (ext w)
          \<and> \<not> io_fault sys (GetMTime f) (ext w)
          \<and> json_loads sys (content node) = Inr doc \<longrightarrow>
        fst (load_cache sys f w) =
          Inr (case doc of
                 JObj kvs \<Rightarrow> (case map_of kvs ''data'' of Some payload \<Rightarrow> payload | None \<Rightarrow> doc)
               | _ \<Rightarrow> JNull))"
  by (auto simp: load_cache_def get_file_age_hours_def io_defs fs_defs
      split: result_splits json.splits)

theorem load_cache_contract_witness:
  "load_cache base_sys ''linuxdo_cookies.json'' cold_world =
     (Inr JNull,
      cold_world\<lparr>trace := [Log INFO ''cache file does not exist: linuxdo_cookies.json'']\<rparr>)
   \<and> load_cache base_sys ''linuxdo_cookies.json'' cached_world =
     (Inr JNull,
      cached_world\<lparr>trace :=
        [Log WARNING ''cache load failed linuxdo_cookies.json: JSONDecodeError'']\<rparr>)
   \<and> fst (load_cache expired_sys ''linuxdo_cookies.json'' cached_world) =
       Inr (JArr expired_cookies)"
proof -
  have absent: "files cold_world ''linuxdo_cookies.json'' = None"
    by (simp add: cold_world_def)
  have garbage:
    "files cached_world ''linuxdo_cookies.json'' = Some \<lparr>content = ''{}'', mtime = 900\<rparr>
     \<and> \<not> io_fault base_sys (OpenRead ''linuxdo_cookies.json'') (ext cached_world)
     \<and> json_loads base_sys (content \<lparr>content = ''{}'', mtime = 900\<rparr>) = Inl ''JSONDecodeError''"
    by (simp add: cached_world_def cold_world_def base_sys_simps)
  have good:
    "files cached_world ''linuxdo_cookies.json'' = Some \<lparr>content = ''{}'', mtime = 900\<rparr>
     \<and> \<not> io_fault expired_sys (OpenRead ''linuxdo_cookies.json'') (ext cached_world)
     \<and> \<not> io_fault expired_sys (GetMTime ''linuxdo_cookies.json'') (ext cached_world)
     \<and> json_loads expired_sys (content \<lparr>content = ''{}'', mtime = 900\<rparr>)
         = Inr (JObj [(''data'', JArr expired_cookies)])"
    by (simp add: cached_world_def cold_world_def expired_sys_simps)
  show ?thesis
    using load_cache_contract[of base_sys "''linuxdo_cookies.json''" cold_world] absent
      load_cache_contract[of base_sys "''linuxdo_cookies.json''" cached_world] garbage
      load_cache_contract[of expired_sys "''linuxdo_cookies.json''" cached_world] good
    by (simp add: cold_world_def cached_world_def)
qed

text \<open>
  Claim C8. \<^verbatim>\<open>save_cache\<close> never raises: it always returns a boolean. It returns
  \<^verbatim>\<open>True\<close> exactly when none of its I/O steps fails (opening the file for writing,
  writing, \<^verbatim>\<open>os.utime\<close>, reading the modification time and the size back); any such
  failure gives \<^verbatim>\<open>False\<close>. When it returns \<^verbatim>\<open>True\<close> the file holds the serialization of
  the document with the keys \<^verbatim>\<open>data\<close> (the payload), \<^verbatim>\<open>cache_timestamp\<close> (the ISO
  time stamp of the save), \<^verbatim>\<open>cache_version\<close> (the string 1.0) and \<^verbatim>\<open>file_created\<close> (the
  clock reading before the write), and its modification time is no longer the one the
  file system gave it at the write: it is the reading of \<^verbatim>\<open>time.time()\<close> taken after
  the write. The touch comes after the write: when \<^verbatim>\<open>os.utime\<close> is the step that
  fails, the result is \<^verbatim>\<open>False\<close> and the file holds the document with the
  modification time of the write.
\<close>

theorem save_cache_contract:
  "(\<exists>b. fst (save_cache sys payload f w) = Inr b)
   \<and> (fst (save_cache sys payload f w) = Inr True \<longleftrightarrow>
        \<not> io_fault sys (OpenWrite f) (ext w) \<and> \<not> io_fault sys (Write f) (ext w)
        \<and> \<not> io_fault sys (Utime f) (snd (fs_write sys f (ext w)))
        \<and> \<not> io_fault sys (GetMTime f) (snd (fs_write sys f (ext w)))
        \<and> \<not> io_fault sys (GetSize f) (snd (fs_write sys f (ext w))))
   \<and> (fst (save_cache sys payload f w) = Inr True \<longrightarrow>
        files (snd (save_cache sys payload f w)) f =
          Some \<lparr>content = json_dumps sys
                   (JObj [(''data'', payload),
                          (''cache_timestamp'', JStr (isoformat_now sys (ext w))),
                          (''cache_version'', JStr ''1.0''),
                          (''file_created'', JNum (clock sys (ext w)))]),
                mtime = clock sys (snd (fs_write sys f (ext w)))\<rparr>)
   \<and> (\<not> io_fault sys (OpenWrite f) (ext w) \<and> \<not> io_fault sys (Write f) (ext w)
        \<and> io_fault sys (Utime f) (snd (fs_write sys f (ext w))) \<longrightarrow>
        fst (save_cache sys payload f w) = Inr False
        \<and> files (snd (save_cache sys payload f w)) f =
          Some \<lparr>content = json_dumps sys
                   (JObj [(''data'', payload),
                          (''cache_timestamp'', JStr (isoformat_now sys (ext w))),
                          (''cache_version'', JStr ''1.0''),
                          (''file_created'', JNum (clock sys (ext w)))]),
                mtime = fst (fs_write sys f (ext w))\<rparr>)"
  by (auto simp: save_cache_def data_to_save_def get_file_age_hours_def io_defs fs_defs Let_def
      split: result_splits)

lemma slow_disk_sys_simps:
  "clock slow_disk_sys = (\<lambda>x. x)"
  "fs_write slow_disk_sys = (\<lambda>f x. (x + 1, x + 2))"
  "io_fault slow_disk_sys = (\<lambda>c x. False)"
  "isoformat_now slow_disk_sys = (\<lambda>x. ''2024-01-01T00:00:00'')"
  "json_dumps slow_disk_sys = (\<lambda>d. if d = session_doc then ''session'' else ''other'')"
  by (simp_all add: slow_disk_sys_def codec_sys_def base_sys_def)

lemma no_touch_sys_simps:
  "clock no_touch_sys = (\<lambda>x. x)"
  "fs_write no_touch_sys = (\<lambda>f x. (x + 1, x + 2))"
  "io_fault no_touch_sys = (\<lambda>c x. c = Utime ''linuxdo_session.json'')"
  "isoformat_now no_touch_sys = (\<lambda>x. ''2024-01-01T00:00:00'')"
  "json_dumps no_touch_sys = (\<lambda>d. if d = session_doc then ''session'' else ''other'')"
  by (simp_all add: no_touch_sys_def slow_disk_sys_def codec_sys_def base_sys_def)

theorem save_cache_contract_witness:
  "fst (save_cache slow_disk_sys session_payload ''linuxdo_session.json'' cold_world) = Inr True
   \<and> files (snd (save_cache slow_disk_sys session_payload ''linuxdo_session.json'' cold_world))
        ''linuxdo_session.json'' = Some \<lparr>content = ''session'', mtime = 1002\<rparr>
   \<and> fst (save_cache no_touch_sys session_payload ''linuxdo_session.json'' cold_world)
       = Inr False
   \<and> files (snd (save_cache no_touch_sys session_payload ''linuxdo_session.json'' cold_world))
        ''linuxdo_session.json'' = Some \<lparr>content = ''session'', mtime = 1001\<rparr>
   \<and> fst (save_cache write_fault_sys session_payload ''linuxdo_session.json'' cold_world)
       = Inr False"
proof -
  have ok: "\<not> io_fault slow_disk_sys c x" for c x
    by (simp add: slow_disk_sys_simps)
  have saved:
    "fst (save_cache slow_disk_sys session_payload ''linuxdo_session.json'' cold_world)
       = Inr True"
    using save_cache_contract[of slow_disk_sys session_payload "''linuxdo_session.json''"
        cold_world] ok by blast
  have touched:
    "files (snd (save_cache slow_disk_sys session_payload ''linuxdo_session.json'' cold_world))
        ''linuxdo_session.json'' = Some \<lparr>content = ''session'', mtime = 1002\<rparr>"
    using save_cache_contract[of slow_disk_sys session_payload "''linuxdo_session.json''"
        cold_world, THEN conjunct2, THEN conjunct2, THEN conjunct1, THEN mp, OF saved]
    by (simp add: slow_disk_sys_simps cold_world_def session_doc_def)
  have untouched:
    "fst (save_cache no_touch_sys session_payload ''linuxdo_session.json'' cold_world)
       = Inr False
     \<and> files (snd (save_cache no_touch_sys session_payload ''linuxdo_session.json'' cold_world))
        ''linuxdo_session.json'' = Some \<lparr>content = ''session'', mtime = 1001\<rparr>"
    using save_cache_contract[of no_touch_sys session_payload "''linuxdo_session.json''"
        cold_world, THEN conjunct2, THEN conjunct2, THEN conjunct2]
    by (simp add: no_touch_sys_simps cold_world_def session_doc_def)
  have bad: "io_fault write_fault_sys (Write ''linuxdo_session.json'') (ext cold_world)"
    by (simp add: write_fault_sys_simps)
  have never_raises:
    "\<exists>b. fst (save_cache write_fault_sys session_payload ''linuxdo_session.json'' cold_world)
        = Inr b"
    using save_cache_contract[of write_fault_sys session_payload "''linuxdo_session.json''"
        cold_world] by blast
  have failed:
    "fst (save_cache write_fault_sys session_payload ''linuxdo_session.json'' cold_world)
       \<noteq> Inr True"
    using save_cache_contract[of write_fault_sys session_payload "''linuxdo_session.json''"
        cold_world] bad by blast
  show ?thesis
    using saved touched untouched failed never_raises by auto
qed

text \<open>
  Claim C3. Round trip of the cache: when \<^verbatim>\<open>save_cache\<close> has returned \<^verbatim>\<open>True\<close>, the
  JSON codec reads back the document that was written, the file is as the save left
  it and can be read, then \<^verbatim>\<open>load_cache\<close> of the same file returns exactly the payload
  that was saved. The wrapper's \<^verbatim>\<open>cache_timestamp\<close> and \<^verbatim>\<open>file_created\<close> are computed
  from the clock of the save, and no wrapper key is part of what \<^verbatim>\<open>load_cache\<close>
  returns.
\<close>

theorem save_load_roundtrip:
  assumes saved: "save_cache sys payload f w = (Inr True, w1)"
    and codec:
      "json_loads sys (json_dumps sys
          (data_to_save payload (isoformat_now sys (ext w)) (clock sys (ext w))))
        = Inr (data_to_save payload (isoformat_now sys (ext w)) (clock sys (ext w)))"
    and unmodified: "files w2 f = files w1 f"
    and readable: "\<not> io_fault sys (OpenRead f) (ext w2)" "\<not> io_fault sys (GetMTime f) (ext w2)"
  shows "fst (load_cache sys f w2) = Inr payload
       \<and> (\<exists>node. files w1 f = Some node
            \<and> content node = json_dumps sys
                (JObj [(''data'', payload),
                       (''cache_timestamp'', JStr (isoformat_now sys (ext w))),
                       (''cache_version'', JStr ''1.0''),
                       (''file_created'', JNum (clock sys (ext w)))]))"
proof -
  have written:
    "files w1 f =
       Some \<lparr>content = json_dumps sys
                (data_to_save payload (isoformat_now sys (ext w)) (clock sys (ext w))),
             mtime = clock sys (snd (fs_write sys f (ext w)))\<rparr>"
    using saved
    by (auto simp: save_cache_def get_file_age_hours_def io_defs fs_defs Let_def
        split: result_splits)
  then have "fst (load_cache sys f w2) = Inr payload"
    using codec unmodified readable
    by (auto simp: load_cache_def data_to_save_def get_file_age_hours_def io_defs fs_defs
        split: result_splits)
  then show ?thesis
    using written by (simp add: data_to_save_def)
qed

theorem save_load_roundtrip_witness:
  "save_cache codec_sys session_payload ''linuxdo_session.json'' cold_world
     = (Inr True,
        cold_world
          \<lparr>files := (files cold_world)(''linuxdo_session.json'' \<mapsto>
                       \<lparr>content = ''session'', mtime = 1000\<rparr>),
           trace := [Log INFO ''cache saved to linuxdo_session.json'']\<rparr>)
   \<and> fst (load_cache codec_sys ''linuxdo_session.json''
            (cold_world
              \<lparr>files := (files cold_world)(''linuxdo_session.json'' \<mapsto>
                           \<lparr>content = ''session'', mtime = 1000\<rparr>),
               trace := [Log INFO ''cache saved to linuxdo_session.json'']\<rparr>))
       = Inr session_payload"
proof -
  let ?w1 = "cold_world
          \<lparr>files := (files cold_world)(''linuxdo_session.json'' \<mapsto>
                       \<lparr>content = ''session'', mtime = 1000\<rparr>),
           trace := [Log INFO ''cache saved to linuxdo_session.json'']\<rparr>"
  have saved:
    "save_cache codec_sys session_payload ''linuxdo_session.json'' cold_world = (Inr True, ?w1)"
    by (simp add: save_cache_def data_to_save_def get_file_age_hours_def io_defs fs_defs Let_def
        codec_sys_simps cold_world_def session_doc_def)
  have codec:
    "json_loads codec_sys (json_dumps codec_sys
        (data_to_save session_payload (isoformat_now codec_sys (ext cold_world))
           (clock codec_sys (ext cold_world))))
      = Inr (data_to_save session_payload (isoformat_now codec_sys (ext cold_world))
           (clock codec_sys (ext cold_world)))"
    by (simp add: codec_sys_simps data_to_save_def session_doc_def cold_world_def)
  have readable:
    "\<not> io_fault codec_sys (OpenRead ''linuxdo_session.json'') (ext ?w1)"
    "\<not> io_fault codec_sys (GetMTime ''linuxdo_session.json'') (ext ?w1)"
    by (simp_all add: codec_sys_simps)
  show ?thesis
    using save_load_roundtrip[OF saved codec refl readable, THEN conjunct1] saved by simp
qed

section \<open>Clearance cookie and browse history\<close>

lemma cookie_loop_wf:
  "list_all is_cookie cs \<Longrightarrow> 0 \<le> clock sys (ext w) \<Longrightarrow>
   cookie_loop sys cs w = (Inr (list_ex (clearance_valid (clock sys (ext w))) cs), w)"
proof (induction cs)
  case Nil
  then show ?case by (simp add: io_defs)
next
  case (Cons c cs)
  then obtain kvs where c: "c = JObj kvs" by (cases c) auto
  show ?case using Cons
    by (auto simp: c io_defs split: option.splits json.splits)
qed

lemma is_cf_cookie_valid_wf:
  "list_all is_cookie cs \<Longrightarrow> 0 \<le> clock sys (ext w) \<Longrightarrow>
   is_cf_cookie_valid sys (JArr cs) w
     = (Inr (list_ex (clearance_valid (clock sys (ext w))) cs), w)"
  by (simp add: is_cf_cookie_valid_def io_try_def io_bind_def lift_result_def cookie_loop_wf)

text \<open>
  Claim C2. For a cookie set (a list of cookie entries) and a clock that is not before
  the epoch, \<^verbatim>\<open>is_cf_cookie_valid\<close> returns \<^verbatim>\<open>True\<close> if and only if some entry named
  \<^verbatim>\<open>cf_clearance\<close> has \<^verbatim>\<open>expires\<close> equal to -1 or strictly greater than the current
  time, and it changes nothing. A clearance cookie with \<^verbatim>\<open>expires\<close> equal to the
  current time minus 10 is invalid (at any time but 9 seconds after the epoch, where
  that value is the marker -1). When no entry of the cached cookie set is valid,
  \<^verbatim>\<open>handle_cloudflare\<close> skips the cached short-circuit and is the full flow (polling
  loop and final inspection) run from the world the cache load left.
\<close>

theorem is_cf_cookie_valid_iff:
  assumes wf: "list_all is_cookie cs" and now: "0 \<le> clock sys (ext w)"
  shows "is_cf_cookie_valid sys (JArr cs) w
           = (Inr (\<exists>c \<in> set cs. clearance_valid (clock sys (ext w)) c), w)
       \<and> (clock sys (ext w) \<noteq> 9 \<longrightarrow>
            \<not> clearance_valid (clock sys (ext w))
                (JObj [(''name'', JStr ''cf_clearance''), (''value'', v),
                       (''expires'', JNum (clock sys (ext w) - 10))]))
       \<and> (\<not> (\<exists>c \<in> set cs. clearance_valid (clock sys (ext w)) c) \<longrightarrow>
            load_cookies sys (w\<lparr>trace := trace w @ [Log INFO ''start handling Cloudflare'']\<rparr>)
              = (Inr (JArr cs), w1) \<longrightarrow>
            handle_cloudflare sys page max_attempts timeout w
              = cf_full_flow sys page (clock sys (ext w)) max_attempts timeout w1)"
proof (intro conjI impI)
  show "is_cf_cookie_valid sys (JArr cs) w
           = (Inr (\<exists>c \<in> set cs. clearance_valid (clock sys (ext w)) c), w)"
    using is_cf_cookie_valid_wf[OF wf now] by (simp add: list_ex_iff)
next
  assume "clock sys (ext w) \<noteq> 9"
  then show "\<not> clearance_valid (clock sys (ext w))
                (JObj [(''name'', JStr ''cf_clearance''), (''value'', v),
                       (''expires'', JNum (clock sys (ext w) - 10))])"
    by simp
next
  assume inv: "\<not> (\<exists>c \<in> set cs. clearance_valid (clock sys (ext w)) c)"
    and ld: "load_cookies sys (w\<lparr>trace := trace w @ [Log INFO ''start handling Cloudflare'']\<rparr>)
              = (Inr (JArr cs), w1)"
  have e1: "ext w1 = ext w"
    using load_cache_ext[of sys "''linuxdo_cookies.json''"
        "w\<lparr>trace := trace w @ [Log INFO ''start handling Cloudflare'']\<rparr>"] ld
    by (simp add: load_cookies_def)
  have v: "is_cf_cookie_valid sys (JArr cs) w1 = (Inr False, w1)"
    using is_cf_cookie_valid_wf[OF wf, of sys w1] now inv by (simp add: e1 list_ex_iff)
  have v0: "is_cf_cookie_valid sys (JArr []) w1 = (Inr False, w1)"
    using is_cf_cookie_valid_wf[of "[]" sys w1] now by (simp add: e1)
  show "handle_cloudflare sys page max_attempts timeout w
              = cf_full_flow sys page (clock sys (ext w)) max_attempts timeout w1"
    using ld v v0
    by (simp add: handle_cloudflare_def io_bind_def time_time_def logger_def emit_def
        io_return_def)
qed

theorem is_cf_cookie_valid_iff_witness:
  "is_cf_cookie_valid expired_sys (JArr expired_cookies) cached_world = (Inr False, cached_world)
   \<and> \<not> clearance_valid 1000
        (JObj [(''name'', JStr ''cf_clearance''), (''value'', JStr ''s2''),
               (''expires'', JNum (1000 - 10))])
   \<and> handle_cloudflare expired_sys 0 8 180 cached_world
      = cf_full_flow expired_sys 0 1000 8 180
          (cached_world\<lparr>trace := [Log INFO ''start handling Cloudflare'',
                                    Log INFO ''cache loaded linuxdo_cookies.json'']\<rparr>)"
proof -
  have wf: "list_all is_cookie expired_cookies"
    by (simp add: expired_cookies_def)
  have now: "0 \<le> clock expired_sys (ext cached_world)"
    "clock expired_sys (ext cached_world) = 1000"
    by (simp_all add: expired_sys_simps cached_world_def cold_world_def)
  have inv:
    "\<not> (\<exists>c \<in> set expired_cookies. clearance_valid (clock expired_sys (ext cached_world)) c)"
    by (simp add: now expired_cookies_def)
  have ld:
    "load_cookies expired_sys
       (cached_world\<lparr>trace := trace cached_world @ [Log INFO ''start handling Cloudflare'']\<rparr>)
      = (Inr (JArr expired_cookies),
         cached_world\<lparr>trace := [Log INFO ''start handling Cloudflare'',
                                   Log INFO ''cache loaded linuxdo_cookies.json'']\<rparr>)"
    by (simp add: load_cookies_def load_cache_def get_file_age_hours_def io_defs fs_defs
        expired_sys_simps cached_world_def cold_world_def)
  show ?thesis
    using is_cf_cookie_valid_iff[OF wf now(1), of "JStr ''s2''" _ 0 8 180] inv ld
    by (simp add: now)
qed

text \<open>
  Claim C6. Whenever the update of the browse history completes, the session data is
  a dict whose previous history \<open>old\<close> is a list (the empty list when the key is
  missing), the new history is \<open>old\<close> with the topic's link appended at the end, cut
  to its last 50 entries, so it never has more than 50 entries; and when \<open>old\<close> had
  50 entries the new history is \<open>old\<close> without its first (oldest) entry, followed by
  the link.
\<close>

theorem browse_history_cap:
  assumes "update_browse_history sys topic w = (Inr (), w')"
  shows "\<exists>sd old href x'.
           session_data w = JObj sd
         \<and> (case map_of sd ''browse_history'' of None \<Rightarrow> JArr [] | Some h \<Rightarrow> h) = JArr old
         \<and> elem_attr sys topic ''href'' (ext w) = (Inr href, x')
         \<and> session_data w' =
             JObj (AList.update ''browse_history''
                     (JArr (drop (length old + 1 - 50) (old @ [href]))) sd)
         \<and> length (drop (length old + 1 - 50) (old @ [href])) \<le> 50
         \<and> (length old = 50 \<longrightarrow> drop (length old + 1 - 50) (old @ [href]) = tl old @ [href])"
proof -
  obtain sd where sd: "session_data w = JObj sd"
    using assms
    by (cases "session_data w")
       (auto simp: update_browse_history_def get_session_data_def io_defs)
  obtain old where
    old: "(case map_of sd ''browse_history'' of None \<Rightarrow> JArr [] | Some h \<Rightarrow> h) = JArr old"
    using assms sd
    by (cases "(case map_of sd ''browse_history'' of None \<Rightarrow> JArr [] | Some h \<Rightarrow> h)")
       (auto simp: update_browse_history_def get_session_data_def io_defs)
  obtain r x' where at: "elem_attr sys topic ''href'' (ext w) = (r, x')" by force
  obtain href where href: "r = Inr href"
    using assms sd old at
    by (cases r) (auto simp: update_browse_history_def get_session_data_def attr_href_def io_defs)
  have "session_data w' =
          JObj (AList.update ''browse_history''
                  (JArr (drop (length old + 1 - 50) (old @ [href]))) sd)"
    using assms sd old at href
    by (auto simp: update_browse_history_def get_session_data_def set_session_data_def
        session_setitem_def attr_href_def io_defs)
  moreover have "length old = 50 \<Longrightarrow> drop (length old + 1 - 50) (old @ [href]) = tl old @ [href]"
    by (cases old) auto
  ultimately show ?thesis using sd old at href by auto
qed

theorem browse_history_cap_witness:
  "update_browse_history href_sys (Element 1) full_history_world
     = (Inr (),
        full_history_world
          \<lparr>ext := 1000,
           trace := [Call ''attr'' ''href''],
           session_data :=
             JObj [(''browse_history'',
                    JArr (replicate 49 (JStr ''/t/topic/2'') @ [JStr ''/t/topic/51'']))]\<rparr>)
   \<and> length (replicate 49 (JStr ''/t/topic/2'') @ [JStr ''/t/topic/51'']) \<le> 50"
proof -
  let ?w' = "full_history_world
          \<lparr>ext := 1000,
           trace := [Call ''attr'' ''href''],
           session_data :=
             JObj [(''browse_history'',
                    JArr (replicate 49 (JStr ''/t/topic/2'') @ [JStr ''/t/topic/51'']))]\<rparr>"
  have run: "update_browse_history href_sys (Element 1) full_history_world = (Inr (), ?w')"
    by (simp add: update_browse_history_def get_session_data_def set_session_data_def
        session_setitem_def attr_href_def io_defs href_sys_def base_sys_def
        full_history_world_def cold_world_def)
  from browse_history_cap[OF run] obtain sd old href x' where
    "session_data ?w' =
       JObj (AList.update ''browse_history''
              (JArr (drop (length old + 1 - 50) (old @ [href]))) sd)"
    "length (drop (length old + 1 - 50) (old @ [href])) \<le> 50"
    by blast
  then show ?thesis using run by simp
qed

section \<open>Which functions raise, which always return\<close>

lemma oe_cookie_loop [oe]: "only_exceptions (cookie_loop sys cs)"
  by (induction cs) (auto intro!: oe)

lemma rt_load_cache [rt]: "returns (load_cache sys f)"
  unfolding load_cache_def get_file_age_hours_def by (intro rt oe)

lemma rt_save_cache [rt]: "returns (save_cache sys d f)"
  unfolding save_cache_def get_file_age_hours_def by (intro rt oe)

lemma rt_cache_wrappers [rt]:
  "returns (load_cookies sys)"
  "returns (save_cookies sys c)"
  "returns (load_session sys)"
  "returns (save_session sys sd)"
  unfolding load_cookies_def save_cookies_def load_session_def save_session_def
  by (intro rt)+

lemma rt_is_cf_cookie_valid [rt]: "returns (is_cf_cookie_valid sys c)"
  unfolding is_cf_cookie_valid_def by (intro rt oe)

lemma oe_browser [oe]:
  "only_exceptions (get_title sys page)"
  "only_exceptions (get_url sys page)"
  "only_exceptions (get_html sys page)"
  "only_exceptions (navigate sys page url)"
  "only_exceptions (set_cookies sys page c)"
  "only_exceptions (find_ele sys page selector)"
  "only_exceptions (click sys e)"
  "only_exceptions (run_js sys page script)"
  "only_exceptions (attr_href sys e)"
  by (simp_all add: get_title_def get_url_def get_html_def navigate_def set_cookies_def
      find_ele_def click_def run_js_def attr_href_def oe)

lemma oe_username_in [oe]: "only_exceptions (username_in sys cfg c)"
  unfolding username_in_def by (intro oe)

lemma oe_session_setitem [oe]: "only_exceptions (session_setitem k v)"
  unfolding session_setitem_def by (intro oe)

lemma rt_cf_cached_bypass [rt]: "returns (cf_cached_bypass sys page c)"
  unfolding cf_cached_bypass_def by (intro rt oe)

lemma rt_cf_iteration [rt]: "returns (cf_iteration sys page s t m a)"
  unfolding cf_iteration_def by (intro rt oe)

lemma rt_retry_loop [rt]: "only_exceptions func \<Longrightarrow> returns (retry_loop sys n name func as)"
  by (induction as) (auto intro!: rt oe)

lemma rt_retry_decorator [rt]:
  "only_exceptions func \<Longrightarrow> returns (retry_decorator sys n name func)"
  unfolding retry_decorator_def by (rule rt_retry_loop)

lemma oe_click_one_topic_body [oe]: "only_exceptions (click_one_topic_body sys url)"
  unfolding click_one_topic_body_def by (intro oe)

lemma rt_click_one_topic [rt]: "returns (click_one_topic sys url)"
  unfolding click_one_topic_def by (intro rt oe)

lemma oe_update_browse_history [oe]: "only_exceptions (update_browse_history sys topic)"
  unfolding update_browse_history_def by (intro oe)

lemma oe_user_menu_loop [oe]: "only_exceptions (user_menu_loop sys cfg page sels)"
  by (induction sels) (auto intro!: oe)

lemma oe_verify_username [oe]: "only_exceptions (verify_username sys cfg page)"
  unfolding verify_username_def by (intro oe)

lemma rt_user_indicator_loop [rt]: "returns (user_indicator_loop sys cfg page sels)"
  by (induction sels) (auto intro!: rt oe)

lemma rt_login_button_loop [rt]: "returns (login_button_loop sys page sels)"
  by (induction sels) (auto intro!: rt oe)

lemma oe_login_fallback [oe]: "only_exceptions (login_fallback sys cfg page)"
  unfolding login_fallback_def by (intro oe)

lemma rt_check_login_status [rt]: "returns (check_login_status sys cfg page)"
  unfolding check_login_status_def by (intro rt oe returns_only_exceptions)

lemma rt_save_all_caches [rt]: "returns (save_all_caches sys)"
  unfolding save_all_caches_def by (intro rt oe returns_only_exceptions)

lemma oe_clear_loop [oe]: "only_exceptions (clear_loop sys fs)"
  by (induction fs) (auto intro!: oe)

lemma rt_clear_caches [rt]: "returns (clear_caches sys)"
  unfolding clear_caches_def by (intro rt oe)

lemma rt_try_cache_first_approach [rt]: "returns (try_cache_first_approach sys cfg page)"
  unfolding try_cache_first_approach_def by (intro rt oe returns_only_exceptions)

section \<open>Challenge verifier\<close>

lemma cf_iteration_cases:
  "\<exists>how w'. cf_iteration sys page start_time timeout m a w = (Inr how, w')
     \<and> (how = Next_after_wait \<longrightarrow> clock sys (ext w') - start_time \<le> timeout)
     \<and> (how = Break \<longrightarrow> clock sys (ext w') - start_time > timeout)"
  by (auto simp: cf_iteration_def get_title_def get_url_def io_defs split: result_splits)

lemma cf_poll_general:
  "\<exists>returned iters w'.
     cf_poll sys page start_time timeout m attempts w = (Inr (returned, iters), w')
   \<and> length iters \<le> length attempts
   \<and> (\<forall>(how, elapsed) \<in> set iters.
        (how = Next_after_wait \<longrightarrow> elapsed \<le> timeout) \<and> (how = Break \<longrightarrow> timeout < elapsed))
   \<and> (\<forall>(how, elapsed) \<in> set (butlast iters).
        how = Next_after_wait \<or> how = Next_after_exception)
   \<and> (returned \<longleftrightarrow> iters \<noteq> [] \<and> fst (last iters) = Return_True)"
proof (induction attempts arbitrary: w)
  case Nil
  show ?case by (auto simp: io_return_def)
next
  case (Cons a attempts)
  obtain how w1 where it: "cf_iteration sys page start_time timeout m a w = (Inr how, w1)"
    and wait: "how = Next_after_wait \<Longrightarrow> clock sys (ext w1) - start_time \<le> timeout"
    and brk: "how = Break \<Longrightarrow> clock sys (ext w1) - start_time > timeout"
    using cf_iteration_cases[of sys page start_time timeout m a w] by blast
  obtain r iters w2 where
    rest: "cf_poll sys page start_time timeout m attempts w1 = (Inr (r, iters), w2)"
    and len: "length iters \<le> length attempts"
    and all: "\<forall>(how, elapsed) \<in> set iters.
        (how = Next_after_wait \<longrightarrow> elapsed \<le> timeout) \<and> (how = Break \<longrightarrow> timeout < elapsed)"
    and inner: "\<forall>(how, elapsed) \<in> set (butlast iters).
        how = Next_after_wait \<or> how = Next_after_exception"
    and ret: "r \<longleftrightarrow> iters \<noteq> [] \<and> fst (last iters) = Return_True"
    using Cons.IH[of w1] by blast
  show ?case
  proof (cases how)
    case Return_True
    then show ?thesis using it by (auto simp: io_defs)
  next
    case Break
    then show ?thesis using it brk by (auto simp: io_defs)
  next
    case Next_after_wait
    then show ?thesis using it wait rest len all inner ret
      by (auto simp: io_defs dest: in_set_butlastD)
  next
    case Next_after_exception
    then show ?thesis using it rest len all inner ret
      by (auto simp: io_defs dest: in_set_butlastD)
  qed
qed

lemma rt_cf_poll [rt]: "returns (cf_poll sys page s t m as)"
  unfolding returns_def
proof
  fix w
  obtain r iters w' where "cf_poll sys page s t m as w = (Inr (r, iters), w')"
    using cf_poll_general[of sys page s t m as w] by blast
  then show "\<exists>v. fst (cf_poll sys page s t m as w) = Inr v" by simp
qed





lemma rt_cf_final_check:
  "returns (get_title sys page) \<Longrightarrow> returns (cf_final_check sys page)"
  unfolding cf_final_check_def by (intro rt)

lemma rt_handle_cloudflare:
  "returns (get_title sys page) \<Longrightarrow> returns (handle_cloudflare sys page m t)"
  unfolding handle_cloudflare_def cf_full_flow_def
  by (intro rt rt_cf_final_check)


subsection \<open>Concrete runs of the polling loop\<close>

lemma upt8: "[0..<8] = [0, 1, 2, 3, 4, 5, 6, 7]"
  by code_simp

lemma stuck_sys_simps:
  "clock stuck_sys = (\<lambda>x. x)"
  "time_sleep stuck_sys = (\<lambda>d x. x + d)"
  "io_fault stuck_sys = (\<lambda>c x. False)"
  "page_url stuck_sys = (\<lambda>p x. (Inr (u ''https://linux.do/''), x))"
  "page_title stuck_sys = (\<lambda>p x. (Inl ''PageDisconnectedError'', x + 100))"
  by (simp_all add: stuck_sys_def base_sys_def)

lemma stuck_url:
  "get_url stuck_sys 0 w =
     (Inr (u ''https://linux.do/''), w\<lparr>trace := trace w @ [Call ''page.url'' []]\<rparr>)"
  by (simp add: get_url_def ext_call_def stuck_sys_simps)

lemma stuck_title:
  "get_title stuck_sys 0 w =
     (Inl (Exception ''PageDisconnectedError''),
      w\<lparr>ext := ext w + 100, trace := trace w @ [Call ''page.title'' []]\<rparr>)"
  by (simp add: get_title_def ext_call_def stuck_sys_simps)

lemma stuck_iteration:
  "cf_iteration stuck_sys 0 1000 180 8 a w =
     (Inr Next_after_exception,
      w\<lparr>ext := ext w + 110,
        trace := trace w @ [Call ''page.url'' [], Call ''page.title'' [],
           Log ERROR ''Cloudflare handling exception: PageDisconnectedError'', Sleep 10]\<rparr>)"
  unfolding cf_iteration_def
  by (simp add: io_try_def io_bind_def stuck_url stuck_title logger_def emit_def sleep_def
      ext_step_def io_return_def stuck_sys_simps)

lemma waiting_sys_simps:
  "clock waiting_sys = (\<lambda>x. x)"
  "time_sleep waiting_sys = (\<lambda>d x. x + d)"
  "io_fault waiting_sys = (\<lambda>c x. False)"
  "random_uniform waiting_sys = (\<lambda>a b x. (a, x))"
  "page_url waiting_sys = (\<lambda>p x. (Inr (u ''https://linux.do/''), x))"
  "page_title waiting_sys = (\<lambda>p x. (Inr WAIT_TITLE, x + 100))"
  by (simp_all add: waiting_sys_def base_sys_def)

lemma waiting_url:
  "get_url waiting_sys 0 w =
     (Inr (u ''https://linux.do/''), w\<lparr>trace := trace w @ [Call ''page.url'' []]\<rparr>)"
  by (simp add: get_url_def ext_call_def waiting_sys_simps)

lemma waiting_title:
  "get_title waiting_sys 0 w =
     (Inr WAIT_TITLE, w\<lparr>ext := ext w + 100, trace := trace w @ [Call ''page.title'' []]\<rparr>)"
  by (simp add: get_title_def ext_call_def waiting_sys_simps)

lemma waiting_iteration:
  "cf_iteration waiting_sys 0 1000 180 8 a w =
     (if ext w + 108 - 1000 > 180
      then (Inr Break,
            w\<lparr>ext := ext w + 108,
              trace := trace w @ [Call ''page.url'' [], Call ''page.title'' [],
                Log INFO ''waiting for Cloudflare'', Sleep 8,
                Log WARNING ''Cloudflare handling timed out'']\<rparr>)
      else (Inr Next_after_wait,
            w\<lparr>ext := ext w + 108,
              trace := trace w @ [Call ''page.url'' [], Call ''page.title'' [],
                Log INFO ''waiting for Cloudflare'', Sleep 8]\<rparr>))"
  unfolding cf_iteration_def
  by (simp add: io_try_def io_bind_def waiting_url waiting_title logger_def emit_def sleep_def
      ext_step_def ext_draw_def time_time_def io_return_def waiting_sys_simps title_passed_def)

subsection \<open>The warning for a failed challenge is never logged\<close>

lemma nl_load_cache [pv]: "preserves (\<lambda>w. cf_warning \<notin> set (trace w)) (load_cache sys f)"
  unfolding load_cache_def get_file_age_hours_def
  by (intro pv) (simp_all add: cf_warning_def)?

lemma nl_save_cache [pv]: "preserves (\<lambda>w. cf_warning \<notin> set (trace w)) (save_cache sys d f)"
  unfolding save_cache_def get_file_age_hours_def
  by (intro pv) (simp_all add: cf_warning_def)?

lemma nl_cache_wrappers [pv]:
  "preserves (\<lambda>w. cf_warning \<notin> set (trace w)) (load_cookies sys)"
  "preserves (\<lambda>w. cf_warning \<notin> set (trace w)) (save_cookies sys c)"
  "preserves (\<lambda>w. cf_warning \<notin> set (trace w)) (save_session sys sd)"
  unfolding load_cookies_def save_cookies_def save_session_def
  by (intro pv)+

lemma nl_cookie_loop [pv]:
  "preserves (\<lambda>w. cf_warning \<notin> set (trace w)) (cookie_loop sys cs)"
  by (induction cs) (auto intro!: pv)

lemma nl_is_cf_cookie_valid [pv]:
  "preserves (\<lambda>w. cf_warning \<notin> set (trace w)) (is_cf_cookie_valid sys cs)"
  unfolding is_cf_cookie_valid_def by (intro pv)

lemma nl_browser [pv]:
  "preserves (\<lambda>w. cf_warning \<notin> set (trace w)) (get_title sys page)"
  "preserves (\<lambda>w. cf_warning \<notin> set (trace w)) (get_url sys page)"
  "preserves (\<lambda>w. cf_warning \<notin> set (trace w)) (get_html sys page)"
  "preserves (\<lambda>w. cf_warning \<notin> set (trace w)) (navigate sys page url)"
  "preserves (\<lambda>w. cf_warning \<notin> set (trace w)) (set_cookies sys page c)"
  "preserves (\<lambda>w. cf_warning \<notin> set (trace w)) (find_ele sys page selector)"
  "preserves (\<lambda>w. cf_warning \<notin> set (trace w)) (click sys e)"
  "preserves (\<lambda>w. cf_warning \<notin> set (trace w)) (run_js sys page script)"
  unfolding get_title_def get_url_def get_html_def navigate_def set_cookies_def
    find_ele_def click_def run_js_def
  by (intro pv; simp add: cf_warning_def)+

lemma nl_username_in [pv]:
  "preserves (\<lambda>w. cf_warning \<notin> set (trace w)) (username_in sys cfg c)"
  unfolding username_in_def by (intro pv)

lemma nl_cf_cached_bypass [pv]:
  "preserves (\<lambda>w. cf_warning \<notin> set (trace w)) (cf_cached_bypass sys page c)"
  unfolding cf_cached_bypass_def
  by (intro pv) (simp_all add: cf_warning_def)?

lemma nl_cf_iteration [pv]:
  "preserves (\<lambda>w. cf_warning \<notin> set (trace w)) (cf_iteration sys page s t m a)"
  unfolding cf_iteration_def
  by (intro pv) (simp_all add: cf_warning_def)?

lemma nl_cf_poll [pv]:
  "preserves (\<lambda>w. cf_warning \<notin> set (trace w)) (cf_poll sys page s t m as)"
proof (induction as)
  case Nil
  show ?case by (simp add: pv)
next
  case (Cons a as)
  show ?case
    by (simp, intro pv) (auto split: step.splits intro!: pv Cons)
qed

lemma nl_handle_cloudflare [pv]:
  "preserves (\<lambda>w. cf_warning \<notin> set (trace w)) (handle_cloudflare sys page m t)"
  unfolding handle_cloudflare_def cf_full_flow_def cf_final_check_def
  by (intro pv) (simp_all add: cf_warning_def)?

lemma nl_user_menu_loop [pv]:
  "preserves (\<lambda>w. cf_warning \<notin> set (trace w)) (user_menu_loop sys cfg page sels)"
proof (induction sels)
  case Nil
  show ?case by (simp add: pv)
next
  case (Cons a sels)
  show ?case
    by (simp, intro pv Cons) (simp_all add: cf_warning_def)?
qed

lemma nl_verify_username [pv]:
  "preserves (\<lambda>w. cf_warning \<notin> set (trace w)) (verify_username sys cfg page)"
  unfolding verify_username_def
  by (intro pv) (simp_all add: cf_warning_def)?

lemma nl_user_indicator_loop [pv]:
  "preserves (\<lambda>w. cf_warning \<notin> set (trace w)) (user_indicator_loop sys cfg page sels)"
proof (induction sels)
  case Nil
  show ?case by (simp add: pv)
next
  case (Cons a sels)
  show ?case
    by (simp, intro pv Cons) (simp_all add: cf_warning_def)?
qed

lemma nl_login_button_loop [pv]:
  "preserves (\<lambda>w. cf_warning \<notin> set (trace w)) (login_button_loop sys page sels)"
proof (induction sels)
  case Nil
  show ?case by (simp add: pv)
next
  case (Cons a sels)
  show ?case
    by (simp, intro pv Cons) (simp_all add: cf_warning_def)?
qed

lemma nl_check_login_status [pv]:
  "preserves (\<lambda>w. cf_warning \<notin> set (trace w)) (check_login_status sys cfg page)"
  unfolding check_login_status_def login_fallback_def
  by (intro pv) (simp_all add: cf_warning_def)?

lemma nl_save_all_caches [pv]:
  "preserves (\<lambda>w. cf_warning \<notin> set (trace w)) (save_all_caches sys)"
  unfolding save_all_caches_def
  by (intro pv) (simp_all add: cf_warning_def)?

lemma nl_try_cache_first_approach [pv]:
  "preserves (\<lambda>w. cf_warning \<notin> set (trace w)) (try_cache_first_approach sys cfg page)"
  unfolding try_cache_first_approach_def
  by (intro pv) (simp_all add: cf_warning_def)?

lemma nl_turnstile_iteration [pv]:
  "preserves (\<lambda>w. cf_warning \<notin> set (trace w)) (turnstile_iteration sys page)"
  unfolding turnstile_iteration_def
  by (intro pv) (simp_all add: cf_warning_def)?

lemma nl_turnstile_loop [pv]:
  "preserves (\<lambda>w. cf_warning \<notin> set (trace w)) (turnstile_loop sys page is)"
proof (induction "is")
  case Nil
  show ?case by (simp add: pv)
next
  case (Cons a "is")
  show ?case
    by (simp, intro pv Cons)
qed

lemma nl_getTurnstileToken [pv]:
  "preserves (\<lambda>w. cf_warning \<notin> set (trace w)) (getTurnstileToken sys page)"
  unfolding getTurnstileToken_def by (intro pv)



subsection \<open>Bounds of the polling loop and the result of the verifier\<close>


lemma no_cookies_invalid: "is_cf_cookie_valid sys (JArr []) w = (Inr False, w)"
  by (simp add: is_cf_cookie_valid_def io_try_def io_bind_def lift_result_def io_return_def)

text \<open>
  What holds of the polling loop in every run: it returns, after at most
  \<open>max_attempts\<close> iterations. An iteration that completed its randomized wait goes on
  to the next attempt only if the elapsed time it read is at most \<open>timeout\<close>; if it
  read more, it is a \<^verbatim>\<open>break\<close>. Every iteration but the last ended by going on, after
  the wait or after the exception handler. A \<^verbatim>\<open>break\<close> or a \<^verbatim>\<open>return True\<close> ends the
  loop.
\<close>

lemma cf_poll_iterations:
  "\<exists>returned iters w'.
     cf_poll sys page start_time timeout max_attempts [0..<max_attempts] w
       = (Inr (returned, iters), w')
   \<and> length iters \<le> max_attempts
   \<and> (\<forall>(how, elapsed) \<in> set iters.
        (how = Next_after_wait \<longrightarrow> elapsed \<le> timeout) \<and> (how = Break \<longrightarrow> timeout < elapsed))
   \<and> (\<forall>(how, elapsed) \<in> set (butlast iters).
        how = Next_after_wait \<or> how = Next_after_exception)"
  using cf_poll_general[of sys page start_time timeout max_attempts "[0..<max_attempts]" w]
  by (simp only: length_upt diff_zero) blast

text \<open>
  Claim C1. The code breaks the claim on the path through the exception handler. The
  loop is documented to be bounded by \<open>timeout\<close>, and an iteration that completes its
  wait does check the elapsed time (lines 209-212): with the defaults (8 attempts, 180
  seconds), started at time 1000 on a page that shows the interstitial and answers
  after 100 seconds, the second iteration reads 216 seconds and breaks. The handler of
  lines 214-216 sleeps 10 seconds and goes on to the next attempt without that check:
  on a page whose read of the title takes 100 seconds and then raises, the second
  iteration ends 220 seconds after the start, and six more iterations follow, the last
  ending after 880 seconds.
\<close>

theorem cf_poll_overruns_timeout:
  "fst (cf_poll stuck_sys 0 1000 180 8 [0..<8] cold_world)
   = Inr (False,
       [(Next_after_exception, 110), (Next_after_exception, 220),
        (Next_after_exception, 330), (Next_after_exception, 440),
        (Next_after_exception, 550), (Next_after_exception, 660),
        (Next_after_exception, 770), (Next_after_exception, 880)])
   \<and> fst (cf_poll waiting_sys 0 1000 180 8 [0..<8] cold_world)
     = Inr (False, [(Next_after_wait, 108), (Break, 216)])"
proof
  show "fst (cf_poll stuck_sys 0 1000 180 8 [0..<8] cold_world)
   = Inr (False,
       [(Next_after_exception, 110), (Next_after_exception, 220),
        (Next_after_exception, 330), (Next_after_exception, 440),
        (Next_after_exception, 550), (Next_after_exception, 660),
        (Next_after_exception, 770), (Next_after_exception, 880)])"
    by (simp add: upt8 stuck_iteration io_bind_def time_time_def io_return_def stuck_sys_simps
        cold_world_def)
  show "fst (cf_poll waiting_sys 0 1000 180 8 [0..<8] cold_world)
     = Inr (False, [(Next_after_wait, 108), (Break, 216)])"
    by (simp add: upt8 waiting_iteration io_bind_def time_time_def io_return_def
        waiting_sys_simps cold_world_def)
qed




section \<open>Identity check\<close>

lemma login_fallback_True_iff:
  "fst (login_fallback sys cfg page w) = Inr True \<longleftrightarrow>
     (\<exists>content x1 t1 x2 t2 x3 name.
        page_html sys page (ext w) = (Inr content, x1)
      \<and> page_title sys page x1 = (Inr t1, x2)
      \<and> page_title sys page x2 = (Inr t2, x3)
      \<and> \<not> sublist WAIT_WORD t1 \<and> \<not> sublist (u ''Checking'') t2
      \<and> USERNAME cfg = Some name
      \<and> (sublist (str_lower sys name) (str_lower sys content) \<or> length content > 1000))"
  unfolding login_fallback_def get_html_def get_title_def username_in_def
  by (auto simp: io_defs split: result_splits)

lemma check_via_fallback:
  assumes "user_indicator_loop sys cfg page user_indicators w = (Inr None, w1)"
    and "login_button_loop sys page login_buttons w1 = (Inr False, w2)"
  shows "fst (check_login_status sys cfg page w) = Inr True
         \<longleftrightarrow> fst (login_fallback sys cfg page w2) = Inr True"
proof -
  have "\<forall>c. fst (login_fallback sys cfg page w2) \<noteq> Inl (SystemExit c)"
    using oe_login_fallback[of sys cfg page] by (simp add: only_exceptions_def)
  then show ?thesis using assms
    unfolding check_login_status_def
    by (cases "login_fallback sys cfg page w2")
       (auto simp: io_try_def io_bind_def io_return_def logger_def emit_def split: result_splits)
qed



lemma nothing_found_indicator:
  assumes "\<forall>sel x. page_ele sys page sel x = (Inr NoneElement, x)"
  shows "user_indicator_loop sys cfg page sels w
           = (Inr None, w\<lparr>trace := trace w @ map (Call ''page.ele'') sels\<rparr>)"
proof (induction sels arbitrary: w)
  case Nil
  show ?case by (simp add: io_return_def)
next
  case (Cons a sels)
  show ?case using assms
    by (simp add: Cons find_ele_def ext_call_def io_bind_def io_try_def io_return_def)
qed

lemma nothing_found_button:
  assumes "\<forall>sel x. page_ele sys page sel x = (Inr NoneElement, x)"
  shows "login_button_loop sys page sels w
           = (Inr False, w\<lparr>trace := trace w @ map (Call ''page.ele'') sels\<rparr>)"
proof (induction sels arbitrary: w)
  case Nil
  show ?case by (simp add: io_return_def)
next
  case (Cons a sels)
  show ?case using assms
    by (simp add: Cons find_ele_def ext_call_def io_bind_def io_try_def io_return_def)
qed






section \<open>The retry decorator and the loop over the topics\<close>

lemma upt3: "[0..<3] = [0, 1, 2]"
  by code_simp

text \<open>One pass of the loop of the wrapper: a failed attempt is logged, one second is
  slept and the next attempt starts; a successful attempt ends the loop.\<close>

lemma retry_handler_step:
  "func w = (Inl (Exception e), w1) \<Longrightarrow>
   retry_loop sys retries name func (a # rest) w
     = retry_loop sys retries name func rest
         (after_failure sys name e (int a = int retries - 1) w1)"
  by (simp add: io_try_def io_bind_def io_return_def logger_def emit_def sleep_def
      ext_step_def after_failure_def)

lemma retry_success_step:
  "func w = (Inr v, w1) \<Longrightarrow>
   retry_loop sys retries name func (a # rest) w = (Inr (Some v), w1)"
  by (simp add: io_try_def io_bind_def io_return_def)

lemma retry_three_failures:
  assumes "func w = (Inl (Exception e1), w1)"
    and "func (after_failure sys name e1 False w1) = (Inl (Exception e2), w2)"
    and "func (after_failure sys name e2 False w2) = (Inl (Exception e3), w3)"
  shows "retry_decorator sys 3 name func w = (Inr None, after_failure sys name e3 True w3)"
  unfolding retry_decorator_def upt3 using assms
  by (simp add: retry_handler_step io_return_def del: retry_loop.simps(2))

lemma retry_third_succeeds:
  assumes "func w = (Inl (Exception e1), w1)"
    and "func (after_failure sys name e1 False w1) = (Inl (Exception e2), w2)"
    and "func (after_failure sys name e2 False w2) = (Inr v, w3)"
  shows "retry_decorator sys 3 name func w = (Inr (Some v), w3)"
  unfolding retry_decorator_def upt3 using assms
  by (simp add: retry_handler_step retry_success_step del: retry_loop.simps(2))

lemma retry_first_succeeds:
  assumes "func w = (Inr v, w1)"
  shows "retry_decorator sys 3 name func w = (Inr (Some v), w1)"
  unfolding retry_decorator_def upt3 using assms
  by (simp add: retry_success_step del: retry_loop.simps(2))

lemma retry_second_succeeds:
  assumes "func w = (Inl (Exception e1), w1)"
    and "func (after_failure sys name e1 False w1) = (Inr v, w2)"
  shows "retry_decorator sys 3 name func w = (Inr (Some v), w2)"
  unfolding retry_decorator_def upt3 using assms
  by (simp add: retry_handler_step retry_success_step del: retry_loop.simps(2))

text \<open>A topic visit does not touch the session data.\<close>

lemma pv_session_prims:
  "preserves (\<lambda>w. session_data w = s) (emit ev')"
  "preserves (\<lambda>w. session_data w = s) (logger l msg)"
  "preserves (\<lambda>w. session_data w = s) (ext_call ev' oper)"
  "preserves (\<lambda>w. session_data w = s) (ext_step ev' oper')"
  "preserves (\<lambda>w. session_data w = s) (ext_draw oper'')"
  "preserves (\<lambda>w. session_data w = s) (sleep sys d)"
  by (auto simp: preserves_def io_defs split: result_splits)

lemma ss_retry_loop:
  "preserves (\<lambda>w. session_data w = s) func \<Longrightarrow>
   preserves (\<lambda>w. session_data w = s) (retry_loop sys n name func as)"
proof (induction as)
  case Nil
  show ?case by (simp add: pv)
next
  case (Cons a as)
  show ?case by (simp, intro pv pv_session_prims Cons)
qed

lemma ss_click_one_topic:
  "preserves (\<lambda>w. session_data w = s) (click_one_topic sys href)"
  unfolding click_one_topic_def retry_decorator_def click_one_topic_body_def navigate_def
  by (intro ss_retry_loop pv pv_session_prims)

text \<open>The update of the browse history appends the link and keeps the last 50 entries.\<close>

lemma update_browse_history_ok:
  assumes "browse_history_of (session_data w) = Some old"
    and "elem_attr sys topic ''href'' (ext w) = (Inr href, x')"
  shows "\<exists>w'. update_browse_history sys topic w = (Inr (), w')
           \<and> browse_history_of (session_data w')
               = Some (drop (length old + 1 - 50) (old @ [href]))"
proof -
  obtain sd where sd: "session_data w = JObj sd"
    using assms(1) by (cases "session_data w") auto
  have old: "(case map_of sd ''browse_history'' of None \<Rightarrow> JArr [] | Some h \<Rightarrow> h) = JArr old"
    using assms(1) sd by (auto split: option.splits json.splits)
  show ?thesis
    using sd old assms(2)
    by (auto simp: update_browse_history_def get_session_data_def set_session_data_def
        session_setitem_def attr_href_def io_defs update_conv')
qed

text \<open>One pass of the loop of \<^verbatim>\<open>click_topic\<close>: whatever the visit does, the link is
  recorded and the loop goes on with the next topic.\<close>

lemma topic_loop_step:
  assumes attr: "\<forall>e x. \<exists>v x'. elem_attr sys e ''href'' x = (Inr v, x')"
    and hist: "browse_history_of (session_data w) = Some old"
  shows "\<exists>w4 href. topic_loop sys n i (topic # rest) w = topic_loop sys n (Suc i) rest w4
           \<and> browse_history_of (session_data w4)
               = Some (drop (length old + 1 - 50) (old @ [href]))"
proof -
  let ?w0 = "w\<lparr>trace := trace w @ [Log INFO ''browse progress'']\<rparr>"
  obtain href x1 where a1: "elem_attr sys topic ''href'' (ext ?w0) = (Inr href, x1)"
    using attr by blast
  let ?w1 = "?w0\<lparr>ext := x1, trace := trace ?w0 @ [Call ''attr'' ''href'']\<rparr>"
  have h1: "attr_href sys topic ?w0 = (Inr href, ?w1)"
    using a1 by (simp add: attr_href_def ext_call_def)
  obtain r where r: "fst (click_one_topic sys href ?w1) = Inr r"
    using rt_click_one_topic[of sys href] by (auto simp: returns_def)
  define w2 where "w2 = snd (click_one_topic sys href ?w1)"
  have c: "click_one_topic sys href ?w1 = (Inr r, w2)"
    using r by (simp add: w2_def prod_eq_iff)
  have s2: "session_data w2 = session_data w"
    using ss_click_one_topic[of "session_data w" sys href]
    by (simp add: preserves_def w2_def)
  obtain href2 x3 where a2: "elem_attr sys topic ''href'' (ext w2) = (Inr href2, x3)"
    using attr by blast
  obtain w3 where u: "update_browse_history sys topic w2 = (Inr (), w3)"
    and h3: "browse_history_of (session_data w3)
               = Some (drop (length old + 1 - 50) (old @ [href2]))"
    using update_browse_history_ok[OF _ a2, of old] hist s2 by auto
  let ?delay = "if int i < n - 1 then
                io_bind (ext_draw (random_uniform sys 8 15)) (\<lambda>delay.
                io_bind (logger INFO ''delay between topics'') (\<lambda>_.
                sleep sys delay))
              else io_return ()"
  have "returns ?delay" by (intro rt)
  then obtain d where d: "fst (?delay w3) = Inr d" by (auto simp: returns_def)
  define w4 where "w4 = snd (?delay w3)"
  have dl: "?delay w3 = (Inr (), w4)" using d by (simp add: w4_def prod_eq_iff)
  have "preserves (\<lambda>w. session_data w = session_data w3) ?delay"
    by (intro pv pv_session_prims)
  then have s4: "session_data w4 = session_data w3"
    by (simp add: preserves_def w4_def)
  have "topic_loop sys n i (topic # rest) w = topic_loop sys n (Suc i) rest w4"
    using h1 c u dl by (simp add: io_bind_def logger_def emit_def)
  then show ?thesis using h3 s4 by auto
qed

lemma topic_loop_runs:
  assumes attr: "\<forall>e x. \<exists>v x'. elem_attr sys e ''href'' x = (Inr v, x')"
  shows "browse_history_of (session_data w) = Some old \<Longrightarrow>
         \<exists>w' new. topic_loop sys n i topics w = (Inr (), w')
           \<and> browse_history_of (session_data w') = Some new
           \<and> length new = (if topics = [] then length old
                            else min 50 (length old + length topics))"
proof (induction topics arbitrary: w old i)
  case Nil
  then show ?case by (simp add: io_return_def)
next
  case (Cons topic rest)
  obtain w4 href where
    step: "topic_loop sys n i (topic # rest) w = topic_loop sys n (Suc i) rest w4"
    and h4: "browse_history_of (session_data w4)
               = Some (drop (length old + 1 - 50) (old @ [href]))"
    using topic_loop_step[OF attr Cons.prems] by blast
  obtain w' new where
    rec: "topic_loop sys n (Suc i) rest w4 = (Inr (), w')"
    and hn: "browse_history_of (session_data w') = Some new"
    and ln: "length new
               = (if rest = [] then length (drop (length old + 1 - 50) (old @ [href]))
                  else min 50 (length (drop (length old + 1 - 50) (old @ [href]))
                               + length rest))"
    using Cons.IH[OF h4] by blast
  have "length new = min 50 (length old + length (topic # rest))"
    using ln by (auto simp: min_def)
  then show ?case using step rec hn by simp
qed

text \<open>After the visit, whatever it returned, the loop updates the browse history,
  waits and goes on with the rest of the topics.\<close>

lemma topic_loop_after_visit:
  assumes "attr_href sys topic (w\<lparr>trace := trace w @ [Log INFO ''browse progress'']\<rparr>)
             = (Inr l, w1)"
  shows "\<exists>r w2. click_one_topic sys l w1 = (Inr r, w2)
         \<and> topic_loop sys n i (topic # rest) w
           = io_bind (update_browse_history sys topic) (\<lambda>_.
             io_bind (if int i < n - 1 then
                        io_bind (ext_draw (random_uniform sys 8 15)) (\<lambda>delay.
                        io_bind (logger INFO ''delay between topics'') (\<lambda>_.
                        sleep sys delay))
                      else io_return ()) (\<lambda>_.
             topic_loop sys n (Suc i) rest)) w2"
proof -
  obtain r where "fst (click_one_topic sys l w1) = Inr r"
    using rt_click_one_topic[of sys l] by (auto simp: returns_def)
  then obtain w2 where c: "click_one_topic sys l w1 = (Inr r, w2)"
    by (cases "click_one_topic sys l w1") simp
  have "topic_loop sys n i (topic # rest) w
           = io_bind (update_browse_history sys topic) (\<lambda>_.
             io_bind (if int i < n - 1 then
                        io_bind (ext_draw (random_uniform sys 8 15)) (\<lambda>delay.
                        io_bind (logger INFO ''delay between topics'') (\<lambda>_.
                        sleep sys delay))
                      else io_return ()) (\<lambda>_.
             topic_loop sys n (Suc i) rest)) w2"
    using assms c by (simp add: io_bind_def logger_def emit_def)
  then show ?thesis using c by blast
qed

text \<open>
  Claim C5. The wrapper made by \<^verbatim>\<open>retry_decorator()\<close> (three attempts) never raises when
  the wrapped function raises nothing but \<^verbatim>\<open>Exception\<close>s. An attempt that succeeds, be it
  the first, the second after one failure or the third after two, ends the wrapper,
  which returns the value of that attempt. Every failed attempt is logged as a warning
  and followed by a sleep of one second before the next attempt. When the function
  raises on all three attempts, the last failure is also logged as an error and the
  wrapper returns \<^verbatim>\<open>None\<close>. \<^verbatim>\<open>click_one_topic\<close> is the undecorated visit under this policy,
  with the name \<^verbatim>\<open>click_one_topic\<close> in the log: the same four cases hold of it, and it
  always returns. The loop of \<^verbatim>\<open>click_topic\<close> goes on after every visit, whatever the
  visit returned: it updates the browse history, waits and takes the next topic. When
  reading a link never raises and the browse history is a list, the loop runs over
  all its topics, returns, and has recorded one link for each of them (keeping the
  last 50).
\<close>

theorem retry_decorator_contract:
  "(only_exceptions func \<longrightarrow> (\<exists>r. fst (retry_decorator sys 3 name func w) = Inr r))
   \<and> (func w = (Inr v, w1) \<longrightarrow> retry_decorator sys 3 name func w = (Inr (Some v), w1))
   \<and> (func w = (Inl (Exception e1), w1) \<longrightarrow>
        (func (after_failure sys name e1 False w1) = (Inr v, w2) \<longrightarrow>
           retry_decorator sys 3 name func w = (Inr (Some v), w2))
      \<and> (func (after_failure sys name e1 False w1) = (Inl (Exception e2), w2) \<longrightarrow>
           (func (after_failure sys name e2 False w2) = (Inr v, w3) \<longrightarrow>
              retry_decorator sys 3 name func w = (Inr (Some v), w3))
         \<and> (func (after_failure sys name e2 False w2) = (Inl (Exception e3), w3) \<longrightarrow>
              retry_decorator sys 3 name func w
                = (Inr None, after_failure sys name e3 True w3))))
   \<and> (\<exists>r. fst (click_one_topic sys href w) = Inr r)
   \<and> (click_one_topic_body sys href w = (Inr (), w1) \<longrightarrow>
        click_one_topic sys href w = (Inr (Some ()), w1))
   \<and> (click_one_topic_body sys href w = (Inl (Exception e1), w1) \<longrightarrow>
        (click_one_topic_body sys href (after_failure sys ''click_one_topic'' e1 False w1)
           = (Inr (), w2) \<longrightarrow>
           click_one_topic sys href w = (Inr (Some ()), w2))
      \<and> (click_one_topic_body sys href (after_failure sys ''click_one_topic'' e1 False w1)
           = (Inl (Exception e2), w2) \<longrightarrow>
           (click_one_topic_body sys href (after_failure sys ''click_one_topic'' e2 False w2)
              = (Inr (), w3) \<longrightarrow>
              click_one_topic sys href w = (Inr (Some ()), w3))
         \<and> (click_one_topic_body sys href (after_failure sys ''click_one_topic'' e2 False w2)
              = (Inl (Exception e3), w3) \<longrightarrow>
              click_one_topic sys href w
                = (Inr None, after_failure sys ''click_one_topic'' e3 True w3))))
   \<and> (attr_href sys topic (w\<lparr>trace := trace w @ [Log INFO ''browse progress'']\<rparr>)
         = (Inr l, w1) \<longrightarrow>
        (\<exists>r w2. click_one_topic sys l w1 = (Inr r, w2)
           \<and> topic_loop sys n i (topic # rest) w
             = io_bind (update_browse_history sys topic) (\<lambda>_.
               io_bind (if int i < n - 1 then
                          io_bind (ext_draw (random_uniform sys 8 15)) (\<lambda>delay.
                          io_bind (logger INFO ''delay between topics'') (\<lambda>_.
                          sleep sys delay))
                        else io_return ()) (\<lambda>_.
               topic_loop sys n (Suc i) rest)) w2))
   \<and> ((\<forall>e x. \<exists>l x'. elem_attr sys e ''href'' x = (Inr l, x')) \<longrightarrow>
      browse_history_of (session_data w) = Some old \<longrightarrow>
        (\<exists>w'. topic_loop sys n i (topic # rest) w = topic_loop sys n (Suc i) rest w')
      \<and> (\<exists>w' new. topic_loop sys n i topics w = (Inr (), w')
            \<and> browse_history_of (session_data w') = Some new
            \<and> length new = (if topics = [] then length old
                             else min 50 (length old + length topics))))"
proof (intro conjI impI)
  assume "only_exceptions func"
  then show "\<exists>r. fst (retry_decorator sys 3 name func w) = Inr r"
    using rt_retry_decorator[of func sys 3 name] by (simp add: returns_def)
next
  assume "func w = (Inr v, w1)"
  then show "retry_decorator sys 3 name func w = (Inr (Some v), w1)"
    by (rule retry_first_succeeds)
next
  assume "func w = (Inl (Exception e1), w1)"
    and "func (after_failure sys name e1 False w1) = (Inr v, w2)"
  then show "retry_decorator sys 3 name func w = (Inr (Some v), w2)"
    by (rule retry_second_succeeds)
next
  assume "func w = (Inl (Exception e1), w1)"
    and "func (after_failure sys name e1 False w1) = (Inl (Exception e2), w2)"
    and "func (after_failure sys name e2 False w2) = (Inr v, w3)"
  then show "retry_decorator sys 3 name func w = (Inr (Some v), w3)"
    by (rule retry_third_succeeds)
next
  assume "func w = (Inl (Exception e1), w1)"
    and "func (after_failure sys name e1 False w1) = (Inl (Exception e2), w2)"
    and "func (after_failure sys name e2 False w2) = (Inl (Exception e3), w3)"
  then show "retry_decorator sys 3 name func w
               = (Inr None, after_failure sys name e3 True w3)"
    by (rule retry_three_failures)
next
  show "\<exists>r. fst (click_one_topic sys href w) = Inr r"
    using rt_click_one_topic[of sys href] by (simp add: returns_def)
next
  assume "click_one_topic_body sys href w = (Inr (), w1)"
  then show "click_one_topic sys href w = (Inr (Some ()), w1)"
    unfolding click_one_topic_def by (rule retry_first_succeeds)
next
  assume "click_one_topic_body sys href w = (Inl (Exception e1), w1)"
    and "click_one_topic_body sys href (after_failure sys ''click_one_topic'' e1 False w1)
           = (Inr (), w2)"
  then show "click_one_topic sys href w = (Inr (Some ()), w2)"
    unfolding click_one_topic_def by (rule retry_second_succeeds)
next
  assume "click_one_topic_body sys href w = (Inl (Exception e1), w1)"
    and "click_one_topic_body sys href (after_failure sys ''click_one_topic'' e1 False w1)
           = (Inl (Exception e2), w2)"
    and "click_one_topic_body sys href (after_failure sys ''click_one_topic'' e2 False w2)
              = (Inr (), w3)"
  then show "click_one_topic sys href w = (Inr (Some ()), w3)"
    unfolding click_one_topic_def by (rule retry_third_succeeds)
next
  assume "click_one_topic_body sys href w = (Inl (Exception e1), w1)"
    and "click_one_topic_body sys href (after_failure sys ''click_one_topic'' e1 False w1)
           = (Inl (Exception e2), w2)"
    and "click_one_topic_body sys href (after_failure sys ''click_one_topic'' e2 False w2)
              = (Inl (Exception e3), w3)"
  then show "click_one_topic sys href w
                = (Inr None, after_failure sys ''click_one_topic'' e3 True w3)"
    unfolding click_one_topic_def by (rule retry_three_failures)
next
  assume "attr_href sys topic (w\<lparr>trace := trace w @ [Log INFO ''browse progress'']\<rparr>)
         = (Inr l, w1)"
  then show "\<exists>r w2. click_one_topic sys l w1 = (Inr r, w2)
           \<and> topic_loop sys n i (topic # rest) w
             = io_bind (update_browse_history sys topic) (\<lambda>_.
               io_bind (if int i < n - 1 then
                          io_bind (ext_draw (random_uniform sys 8 15)) (\<lambda>delay.
                          io_bind (logger INFO ''delay between topics'') (\<lambda>_.
                          sleep sys delay))
                        else io_return ()) (\<lambda>_.
               topic_loop sys n (Suc i) rest)) w2"
    by (rule topic_loop_after_visit)
next
  assume attr: "\<forall>e x. \<exists>l x'. elem_attr sys e ''href'' x = (Inr l, x')"
    and hist: "browse_history_of (session_data w) = Some old"
  show "\<exists>w'. topic_loop sys n i (topic # rest) w = topic_loop sys n (Suc i) rest w'"
    using topic_loop_step[OF attr hist] by blast
  show "\<exists>w' new. topic_loop sys n i topics w = (Inr (), w')
            \<and> browse_history_of (session_data w') = Some new
            \<and> length new = (if topics = [] then length old
                             else min 50 (length old + length topics))"
    using topic_loop_runs[OF attr hist] by blast
qed

lemma always_fails_run: "always_fails w = (Inl (Exception ''boom''), w)"
  by (simp add: always_fails_def io_raise_def)

lemma no_tab_body:
  "click_one_topic_body no_tab_sys url w
     = (Inl (Exception ''BrowserConnectError''),
        w\<lparr>trace := trace w @ [Call ''browser.new_tab'' []]\<rparr>)"
  by (simp add: click_one_topic_body_def no_tab_sys_def base_sys_def ext_call_def
      io_bind_def)

lemma flaky_body_fails:
  "ext w < 1002 \<Longrightarrow>
   click_one_topic_body flaky_tab_sys url w
     = (Inl (Exception ''BrowserConnectError''),
        w\<lparr>trace := trace w @ [Call ''browser.new_tab'' []]\<rparr>)"
  by (simp add: click_one_topic_body_def flaky_tab_sys_def base_sys_def ext_call_def
      io_bind_def)

lemma flaky_body_returns:
  "1002 \<le> ext w \<Longrightarrow> fst (click_one_topic_body flaky_tab_sys (JStr s) w) = Inr ()"
  by (simp add: click_one_topic_body_def flaky_tab_sys_def base_sys_def navigate_def io_defs)

theorem retry_decorator_contract_witness:
  "retry_decorator base_sys 3 ''visit'' always_fails cold_world
     = (Inr None,
        cold_world\<lparr>ext := 1003,
          trace := [Log WARNING ''function visit attempt failed: boom'', Sleep 1,
                    Log WARNING ''function visit attempt failed: boom'', Sleep 1,
                    Log ERROR ''function visit finally failed: boom'',
                    Log WARNING ''function visit attempt failed: boom'', Sleep 1]\<rparr>)
   \<and> retry_decorator base_sys 3 ''visit'' third_time_lucky cold_world
       = (Inr (Some 42),
          cold_world\<lparr>ext := 1002,
            trace := [Log WARNING ''function visit attempt failed: boom'', Sleep 1,
                      Log WARNING ''function visit attempt failed: boom'', Sleep 1]\<rparr>)
   \<and> retry_decorator base_sys 3 ''visit'' second_time_lucky cold_world
       = (Inr (Some 41),
          cold_world\<lparr>ext := 1001,
            trace := [Log WARNING ''function visit attempt failed: boom'', Sleep 1]\<rparr>)
   \<and> retry_decorator base_sys 3 ''visit'' (io_return (7::nat)) cold_world
       = (Inr (Some 7), cold_world)
   \<and> click_one_topic no_tab_sys (JStr ''/t/topic/7'') cold_world
       = (Inr None,
          cold_world\<lparr>ext := 1003,
            trace := [Call ''browser.new_tab'' [],
              Log WARNING ''function click_one_topic attempt failed: BrowserConnectError'',
              Sleep 1,
              Call ''browser.new_tab'' [],
              Log WARNING ''function click_one_topic attempt failed: BrowserConnectError'',
              Sleep 1,
              Call ''browser.new_tab'' [],
              Log ERROR ''function click_one_topic finally failed: BrowserConnectError'',
              Log WARNING ''function click_one_topic attempt failed: BrowserConnectError'',
              Sleep 1]\<rparr>)
   \<and> fst (click_one_topic flaky_tab_sys (JStr ''/t/topic/7'') cold_world) = Inr (Some ())
   \<and> (\<exists>w' new. topic_loop no_tab_sys 2 0 [Element 1, Element 2] cold_world = (Inr (), w')
         \<and> browse_history_of (session_data w') = Some new \<and> length new = 2)
   \<and> (\<exists>w' new. topic_loop flaky_tab_sys 2 0 [Element 1, Element 2] cold_world = (Inr (), w')
         \<and> browse_history_of (session_data w') = Some new \<and> length new = 2)"
proof -
  have sleeps: "time_sleep base_sys = (\<lambda>d x. x + d)" "time_sleep no_tab_sys = (\<lambda>d x. x + d)"
    "time_sleep flaky_tab_sys = (\<lambda>d x. x + d)"
    by (simp_all add: base_sys_def no_tab_sys_def flaky_tab_sys_def)
  have fails: "retry_decorator base_sys 3 ''visit'' always_fails cold_world
      = (Inr None, after_failure base_sys ''visit'' ''boom'' True
           (after_failure base_sys ''visit'' ''boom'' False
             (after_failure base_sys ''visit'' ''boom'' False cold_world)))"
    using retry_decorator_contract[where func = always_fails and sys = base_sys
        and name = "''visit''" and w = cold_world and ?e1.0 = "''boom''"
        and ?w1.0 = cold_world and ?e2.0 = "''boom''" and ?e3.0 = "''boom''"]
    by (simp add: always_fails_run)
  have third: "retry_decorator base_sys 3 ''visit'' third_time_lucky cold_world
       = (Inr (Some 42),
          after_failure base_sys ''visit'' ''boom'' False
            (after_failure base_sys ''visit'' ''boom'' False cold_world))"
    using retry_decorator_contract[where func = third_time_lucky and sys = base_sys
        and name = "''visit''" and w = cold_world and ?e1.0 = "''boom''"
        and ?w1.0 = cold_world and ?e2.0 = "''boom''"
        and ?w2.0 = "after_failure base_sys ''visit'' ''boom'' False cold_world"
        and v = 42
        and ?w3.0 = "after_failure base_sys ''visit'' ''boom'' False
            (after_failure base_sys ''visit'' ''boom'' False cold_world)"]
    by (simp add: third_time_lucky_def after_failure_def cold_world_def)
  have second: "retry_decorator base_sys 3 ''visit'' second_time_lucky cold_world
       = (Inr (Some 41), after_failure base_sys ''visit'' ''boom'' False cold_world)"
    using retry_decorator_contract[where func = second_time_lucky and sys = base_sys
        and name = "''visit''" and w = cold_world and ?e1.0 = "''boom''"
        and ?w1.0 = cold_world and v = 41
        and ?w2.0 = "after_failure base_sys ''visit'' ''boom'' False cold_world"]
    by (simp add: second_time_lucky_def after_failure_def cold_world_def)
  have first: "retry_decorator base_sys 3 ''visit'' (io_return (7::nat)) cold_world
       = (Inr (Some 7), cold_world)"
    using retry_decorator_contract[where func = "io_return (7::nat)" and sys = base_sys
        and name = "''visit''" and w = cold_world and ?w1.0 = cold_world and v = 7]
    by (simp add: io_return_def)
  let ?href = "JStr ''/t/topic/7''"
  let ?tab = "\<lambda>w :: real world. w\<lparr>trace := trace w @ [Call ''browser.new_tab'' []]\<rparr>"
  let ?no = "after_failure no_tab_sys ''click_one_topic'' ''BrowserConnectError''"
  have visit: "click_one_topic no_tab_sys ?href cold_world
      = (Inr None, ?no True (?tab (?no False (?tab (?no False (?tab cold_world))))))"
    by (rule retry_decorator_contract[where sys = no_tab_sys and href = ?href
        and w = cold_world,
        THEN conjunct2, THEN conjunct2, THEN conjunct2, THEN conjunct2, THEN conjunct2,
        THEN conjunct1, THEN mp, OF no_tab_body, THEN conjunct2, THEN mp, OF no_tab_body,
        THEN conjunct2, THEN mp, OF no_tab_body])
  let ?fl = "after_failure flaky_tab_sys ''click_one_topic'' ''BrowserConnectError'' False"
  let ?w2 = "?fl (?tab (?fl (?tab cold_world)))"
  have f1: "click_one_topic_body flaky_tab_sys ?href cold_world
              = (Inl (Exception ''BrowserConnectError''), ?tab cold_world)"
    by (rule flaky_body_fails) (simp add: cold_world_def)
  have f2: "click_one_topic_body flaky_tab_sys ?href (?fl (?tab cold_world))
              = (Inl (Exception ''BrowserConnectError''), ?tab (?fl (?tab cold_world)))"
    by (rule flaky_body_fails) (simp add: after_failure_def sleeps cold_world_def)
  have "fst (click_one_topic_body flaky_tab_sys ?href ?w2) = Inr ()"
    by (rule flaky_body_returns) (simp add: after_failure_def sleeps cold_world_def)
  then have f3: "click_one_topic_body flaky_tab_sys ?href ?w2
              = (Inr (), snd (click_one_topic_body flaky_tab_sys ?href ?w2))"
    by (simp add: prod_eq_iff)
  have flaky: "fst (click_one_topic flaky_tab_sys ?href cold_world) = Inr (Some ())"
    using retry_decorator_contract[where sys = flaky_tab_sys and href = ?href
        and w = cold_world
        and ?e1.0 = "''BrowserConnectError''" and ?e2.0 = "''BrowserConnectError''"
        and ?w1.0 = "?tab cold_world"
        and ?w2.0 = "?tab (?fl (?tab cold_world))"
        and ?w3.0 = "snd (click_one_topic_body flaky_tab_sys ?href ?w2)",
        THEN conjunct2, THEN conjunct2, THEN conjunct2, THEN conjunct2, THEN conjunct2,
        THEN conjunct1, THEN mp, OF f1, THEN conjunct2, THEN mp, OF f2, THEN conjunct1,
        THEN mp, OF f3]
    by simp
  have hist: "browse_history_of (session_data cold_world) = Some []"
    by (simp add: cold_world_def)
  have attr: "\<forall>e x. \<exists>l x'. elem_attr no_tab_sys e ''href'' x = (Inr l, x')"
    by (simp add: no_tab_sys_def)
  have loop: "\<exists>w' new. topic_loop no_tab_sys 2 0 [Element 1, Element 2] cold_world = (Inr (), w')
         \<and> browse_history_of (session_data w') = Some new \<and> length new = 2"
    using retry_decorator_contract[where sys = no_tab_sys and w = cold_world
        and old = "[]" and n = 2 and i = 0 and topics = "[Element 1, Element 2]",
        THEN conjunct2, THEN conjunct2, THEN conjunct2, THEN conjunct2, THEN conjunct2,
        THEN conjunct2, THEN conjunct2, THEN mp, OF attr, THEN mp, OF hist, THEN conjunct2]
    by (simp add: numeral_2_eq_2 del: topic_loop.simps)
  have attr': "\<forall>e x. \<exists>l x'. elem_attr flaky_tab_sys e ''href'' x = (Inr l, x')"
    by (simp add: flaky_tab_sys_def)
  have loop': "\<exists>w' new. topic_loop flaky_tab_sys 2 0 [Element 1, Element 2] cold_world
           = (Inr (), w')
         \<and> browse_history_of (session_data w') = Some new \<and> length new = 2"
    using retry_decorator_contract[where sys = flaky_tab_sys and w = cold_world
        and old = "[]" and n = 2 and i = 0 and topics = "[Element 1, Element 2]",
        THEN conjunct2, THEN conjunct2, THEN conjunct2, THEN conjunct2, THEN conjunct2,
        THEN conjunct2, THEN conjunct2, THEN mp, OF attr', THEN mp, OF hist, THEN conjunct2]
    by (simp add: numeral_2_eq_2 del: topic_loop.simps)
  have worlds:
    "after_failure base_sys ''visit'' ''boom'' True
       (after_failure base_sys ''visit'' ''boom'' False
         (after_failure base_sys ''visit'' ''boom'' False cold_world))
     = cold_world\<lparr>ext := 1003,
          trace := [Log WARNING ''function visit attempt failed: boom'', Sleep 1,
                    Log WARNING ''function visit attempt failed: boom'', Sleep 1,
                    Log ERROR ''function visit finally failed: boom'',
                    Log WARNING ''function visit attempt failed: boom'', Sleep 1]\<rparr>"
    "after_failure base_sys ''visit'' ''boom'' False
       (after_failure base_sys ''visit'' ''boom'' False cold_world)
     = cold_world\<lparr>ext := 1002,
            trace := [Log WARNING ''function visit attempt failed: boom'', Sleep 1,
                      Log WARNING ''function visit attempt failed: boom'', Sleep 1]\<rparr>"
    "after_failure base_sys ''visit'' ''boom'' False cold_world
     = cold_world\<lparr>ext := 1001,
            trace := [Log WARNING ''function visit attempt failed: boom'', Sleep 1]\<rparr>"
    "?no True (?tab (?no False (?tab (?no False (?tab cold_world)))))
     = cold_world\<lparr>ext := 1003,
            trace := [Call ''browser.new_tab'' [],
              Log WARNING ''function click_one_topic attempt failed: BrowserConnectError'',
              Sleep 1,
              Call ''browser.new_tab'' [],
              Log WARNING ''function click_one_topic attempt failed: BrowserConnectError'',
              Sleep 1,
              Call ''browser.new_tab'' [],
              Log ERROR ''function click_one_topic finally failed: BrowserConnectError'',
              Log WARNING ''function click_one_topic attempt failed: BrowserConnectError'',
              Sleep 1]\<rparr>"
    by (simp_all add: after_failure_def sleeps cold_world_def)
  show ?thesis
    unfolding worlds[symmetric]
    using fails third second first visit flaky loop loop' by simp
qed

section \<open>Termination after a failed login\<close>

text \<open>Without a failure of \<^verbatim>\<open>os.remove\<close>, \<^verbatim>\<open>clear_caches\<close> removes the two cache files
  and nothing else.\<close>

lemma clear_caches_files:
  assumes "\<not> io_fault sys (Remove ''linuxdo_cookies.json'') (ext w)"
    and "\<not> io_fault sys (Remove ''linuxdo_session.json'') (ext w)"
  shows "files (snd (clear_caches sys w))
           = (files w)(''linuxdo_cookies.json'' := None, ''linuxdo_session.json'' := None)"
  using assms
  by (cases "files w ''linuxdo_cookies.json''"; cases "files w ''linuxdo_session.json''")
     (auto simp: clear_caches_def os_path_exists_def os_remove_def set_session_data_def
       io_try_def io_bind_def io_return_def logger_def emit_def fun_eq_iff)

lemma run_after_failed_login:
  assumes "login sys cfg page w = (Inr False, w1)"
  shows "run sys cfg page w
           = (Inl (SystemExit 1),
              snd (clear_caches sys
                (w1\<lparr>trace := trace w1 @ [Log ERROR ''login failed, terminating'']\<rparr>)))"
proof -
  let ?w2 = "w1\<lparr>trace := trace w1 @ [Log ERROR ''login failed, terminating'']\<rparr>"
  have "fst (clear_caches sys ?w2) = Inr ()"
    using rt_clear_caches[of sys] by (simp add: returns_def)
  then obtain w3 where c: "clear_caches sys ?w2 = (Inr (), w3)"
    by (cases "clear_caches sys ?w2") simp
  have "run sys cfg page w = (Inl (SystemExit 1), w3)"
    using assms c by (simp add: run_def io_bind_def logger_def emit_def io_raise_def)
  then show ?thesis using c by simp
qed

lemma main_without_credentials:
  assumes "env_falsy (USERNAME (module_config sys getenv))
           \<or> env_falsy (PASSWORD (module_config sys getenv))"
  shows "main sys getenv w0
    = (Inl (SystemExit 1),
       w0\<lparr>trace := trace w0
         @ [Print ''Please set LINUXDO_USERNAME and LINUXDO_PASSWORD environment variables'']\<rparr>)"
  using assms by (auto simp: main_def Let_def io_bind_def emit_def io_raise_def)

lemma main_with_credentials:
  assumes "\<not> env_falsy (USERNAME (module_config sys getenv))"
    and "\<not> env_falsy (PASSWORD (module_config sys getenv))"
    and "init sys (w0\<lparr>trace := trace w0 @ [Log INFO ''LinuxDo automation script started'']\<rparr>)
           = (Inr page, w)"
  shows "main sys getenv w0
           = io_bind (run sys (module_config sys getenv) page)
               (\<lambda>_. logger INFO ''script finished'') w"
  using assms by (simp add: main_def Let_def io_bind_def logger_def emit_def)

lemma main_after_failed_login:
  assumes "\<not> env_falsy (USERNAME (module_config sys getenv))"
    and "\<not> env_falsy (PASSWORD (module_config sys getenv))"
    and "init sys (w0\<lparr>trace := trace w0 @ [Log INFO ''LinuxDo automation script started'']\<rparr>)
           = (Inr page, w)"
    and "login sys (module_config sys getenv) page w = (Inr False, w1)"
  shows "main sys getenv w0 = run sys (module_config sys getenv) page w"
  by (simp add: main_with_credentials[OF assms(1-3)] run_after_failed_login[OF assms(4)]
      io_bind_def)

lemma module_config_credentials:
  "env_falsy (USERNAME (module_config sys getenv))
     \<longleftrightarrow> env_falsy (getenv ''LINUXDO_USERNAME'') \<and> env_falsy (getenv ''USERNAME'')"
  "env_falsy (PASSWORD (module_config sys getenv))
     \<longleftrightarrow> env_falsy (getenv ''LINUXDO_PASSWORD'') \<and> env_falsy (getenv ''PASSWORD'')"
  by (auto simp: module_config_def Let_def)

subsection \<open>Functions that return a given value in every world\<close>

lemma yields_return: "Q v \<Longrightarrow> yields Q (io_return v)"
  by (simp add: yields_def io_return_def)

lemma yields_bind:
  assumes "yields P m"
    and "\<And>v. P v \<Longrightarrow> yields Q (f v)"
  shows "yields Q (io_bind m f)"
  unfolding yields_def
proof
  fix w
  obtain v where v: "fst (m w) = Inr v" "P v"
    using assms(1) by (auto simp: yields_def)
  then have "io_bind m f w = f v (snd (m w))"
    by (cases "m w") (simp add: io_bind_def)
  then show "\<exists>r. fst (io_bind m f w) = Inr r \<and> Q r"
    using assms(2)[OF v(2)] by (simp add: yields_def)
qed

lemma yields_after:
  "returns m \<Longrightarrow> (\<And>v. yields Q (f v)) \<Longrightarrow> yields Q (io_bind m f)"
  by (rule yields_bind[where P = "\<lambda>_. True"]) (auto simp: yields_def returns_def)

lemma yields_try:
  assumes "yields Q m"
  shows "yields Q (io_try m h)"
  unfolding yields_def
proof
  fix w
  obtain v where v: "fst (m w) = Inr v" "Q v"
    using assms by (auto simp: yields_def)
  then have "fst (io_try m h w) = Inr v"
    by (cases "m w") (simp add: io_try_def)
  then show "\<exists>v. fst (io_try m h w) = Inr v \<and> Q v"
    using v by blast
qed

lemma yieldsD: "yields Q m \<Longrightarrow> \<exists>v. fst (m w) = Inr v \<and> Q v"
  by (simp add: yields_def)

lemma returns_call:
  "(\<And>x. \<exists>v x'. oper x = (Inr v, x')) \<Longrightarrow> returns (ext_call ev oper)"
  unfolding returns_def ext_call_def
  by (auto split: prod.splits sum.splits) (metis Inl_Inr_False prod.inject)

subsection \<open>A run in which the site never shows a logged-in user\<close>

lemma base_calls:
  "returns (navigate base_sys p url)"
  "returns (find_ele base_sys p sel)"
  "returns (click base_sys e)"
  "returns (run_js base_sys p script)"
  "returns (get_title base_sys p)"
  "returns (ext_call ev (elem_input base_sys e s))"
  unfolding navigate_def find_ele_def click_def run_js_def get_title_def
  by (rule returns_call, simp add: base_sys_def)+

lemma rt_turnstile_iteration: "returns (turnstile_iteration sys page)"
  unfolding turnstile_iteration_def by (intro rt oe)

lemma rt_turnstile_loop: "returns (turnstile_loop sys page as)"
proof (induction as)
  case Nil
  show ?case by (simp add: rt)
next
  case (Cons a as)
  show ?case by (simp, intro rt rt_turnstile_iteration Cons)
qed

lemma load_cache_base: "yields (\<lambda>v. v = JNull) (load_cache base_sys f)"
  unfolding yields_def load_cache_def
  by (auto simp: os_path_exists_def read_json_def base_sys_simps io_try_def io_bind_def
      logger_def emit_def io_return_def split: option.splits)

lemma try_cache_first_approach_base:
  "yields (\<lambda>b. \<not> b) (try_cache_first_approach base_sys cfg page)"
  unfolding try_cache_first_approach_def load_cookies_def
proof (rule yields_try, rule yields_bind[OF load_cache_base])
  fix v :: json
  assume "v = JNull"
  then show "yields (\<lambda>b. \<not> b)
     (io_bind (is_cf_cookie_valid base_sys (if truthy v then v else JArr []))
       (\<lambda>cached_cf_valid.
          if cached_cf_valid then
            io_bind (logger INFO ''valid Cloudflare cache found, trying direct access'') (\<lambda>_.
            io_bind (if truthy v then set_cookies base_sys page v
                     else io_return ()) (\<lambda>_.
            io_bind (navigate base_sys page HOME_URL) (\<lambda>_.
            io_bind (sleep base_sys 5) (\<lambda>_.
            io_bind (check_login_status base_sys cfg page) (\<lambda>login_status.
              if login_status then
                io_bind (logger SUCCESS ''cache-first flow succeeded, logged in'') (\<lambda>_.
                io_return True)
              else
                io_bind (logger WARNING ''Cloudflare cache valid but not logged in'') (\<lambda>_.
                io_return False))))))
          else
            io_bind (logger INFO ''no valid Cloudflare cache'') (\<lambda>_.
            io_return False)))"
    by (auto simp: yields_def no_cookies_invalid io_bind_def logger_def emit_def io_return_def)
qed

lemma check_login_status_base: "yields (\<lambda>b. \<not> b) (check_login_status base_sys neo_cfg 0)"
  unfolding yields_def
proof
  fix w
  have none: "\<forall>sel x. page_ele base_sys 0 sel x = (Inr NoneElement, x)"
    by (simp add: base_sys_def)
  have "\<not> sublist (u ''neo'') (u ''<html></html>'')"
    by (simp add: u_def sublist_Cons_right prefix_Cons)
  then have "fst (check_login_status base_sys neo_cfg 0 w) \<noteq> Inr True"
    using check_via_fallback[OF nothing_found_indicator[OF none] nothing_found_button[OF none],
        of neo_cfg w]
    by (simp add: login_fallback_True_iff)
       (simp add: base_sys_def neo_cfg_def, simp add: u_def)
  moreover obtain b where "fst (check_login_status base_sys neo_cfg 0 w) = Inr b"
    using rt_check_login_status[of base_sys neo_cfg 0] by (auto simp: returns_def)
  ultimately show "\<exists>v. fst (check_login_status base_sys neo_cfg 0 w) = Inr v \<and> \<not> v"
    by (cases b) auto
qed

lemma login_base: "yields (\<lambda>b. \<not> b) (login base_sys neo_cfg 0)"
  unfolding login_def getTurnstileToken_def
  apply (rule yields_bind[OF try_cache_first_approach_base])
  apply simp
  apply (intro yields_bind[OF check_login_status_base] yields_after rt base_calls
      rt_handle_cloudflare rt_turnstile_loop)
  apply (auto simp: yields_def io_bind_def logger_def emit_def io_return_def)
  done

lemma init_base: "yields (\<lambda>p. p = 0) (init base_sys)"
  unfolding init_def
  apply (rule yields_bind[where P = "\<lambda>p. p = 0"])
   apply (simp add: yields_def ext_call_def base_sys_def)
  apply (intro yields_after rt oe)
  apply (simp add: yields_return)
  done

lemma module_config_neo: "module_config base_sys neo_env = neo_cfg"
  by (simp add: module_config_def neo_env_def neo_cfg_def Let_def base_sys_def u_def)

text \<open>
  Claim C4. When \<^verbatim>\<open>login\<close> returns \<^verbatim>\<open>False\<close>, \<^verbatim>\<open>run\<close> ends with \<^verbatim>\<open>SystemExit(1)\<close>, so the
  exit code of the process is 1; and unless removing a file fails, at that moment the
  two cache files \<^verbatim>\<open>linuxdo_cookies.json\<close> and \<^verbatim>\<open>linuxdo_session.json\<close> are gone and every
  other file is as \<^verbatim>\<open>login\<close> left it. The main block ends with exit code 1, touching no
  file, when the user name or the password is missing or empty, that is when both the
  \<^verbatim>\<open>LINUXDO_\<close> variable and its unprefixed fallback are; otherwise it runs \<^verbatim>\<open>run\<close> on the
  page of the browser it has launched and logs the end of the script when \<^verbatim>\<open>run\<close>
  returns; when \<^verbatim>\<open>login\<close> returns \<^verbatim>\<open>False\<close> there, the main block ends as \<^verbatim>\<open>run\<close> does.
\<close>

theorem login_failure_exit:
  "(login sys cfg page w = (Inr False, w1) \<longrightarrow>
      fst (run sys cfg page w) = Inl (SystemExit 1)
    \<and> exit_code (fst (run sys cfg page w)) = 1
    \<and> (\<not> io_fault sys (Remove ''linuxdo_cookies.json'') (ext w1) \<longrightarrow>
       \<not> io_fault sys (Remove ''linuxdo_session.json'') (ext w1) \<longrightarrow>
         files (snd (run sys cfg page w))
           = (files w1)(''linuxdo_cookies.json'' := None, ''linuxdo_session.json'' := None)))
   \<and> (env_falsy (USERNAME (module_config sys getenv))
        \<or> env_falsy (PASSWORD (module_config sys getenv)) \<longrightarrow>
      fst (main sys getenv w0) = Inl (SystemExit 1)
    \<and> exit_code (fst (main sys getenv w0)) = 1
    \<and> files (snd (main sys getenv w0)) = files w0)
   \<and> (env_falsy (USERNAME (module_config sys getenv))
        \<longleftrightarrow> env_falsy (getenv ''LINUXDO_USERNAME'') \<and> env_falsy (getenv ''USERNAME''))
   \<and> (env_falsy (PASSWORD (module_config sys getenv))
        \<longleftrightarrow> env_falsy (getenv ''LINUXDO_PASSWORD'') \<and> env_falsy (getenv ''PASSWORD''))
   \<and> (\<not> env_falsy (USERNAME (module_config sys getenv)) \<longrightarrow>
      \<not> env_falsy (PASSWORD (module_config sys getenv)) \<longrightarrow>
      init sys (w0\<lparr>trace := trace w0 @ [Log INFO ''LinuxDo automation script started'']\<rparr>)
        = (Inr page', w') \<longrightarrow>
        main sys getenv w0
          = io_bind (run sys (module_config sys getenv) page')
              (\<lambda>_. logger INFO ''script finished'') w'
      \<and> (login sys (module_config sys getenv) page' w' = (Inr False, w1') \<longrightarrow>
           main sys getenv w0 = run sys (module_config sys getenv) page' w'))"
proof (intro conjI impI)
  assume l: "login sys cfg page w = (Inr False, w1)"
  show "fst (run sys cfg page w) = Inl (SystemExit 1)"
    by (simp add: run_after_failed_login[OF l])
  then show "exit_code (fst (run sys cfg page w)) = 1"
    by simp
  assume "\<not> io_fault sys (Remove ''linuxdo_cookies.json'') (ext w1)"
    and "\<not> io_fault sys (Remove ''linuxdo_session.json'') (ext w1)"
  then show "files (snd (run sys cfg page w))
           = (files w1)(''linuxdo_cookies.json'' := None, ''linuxdo_session.json'' := None)"
    by (simp add: run_after_failed_login[OF l] clear_caches_files)
next
  assume m: "env_falsy (USERNAME (module_config sys getenv))
        \<or> env_falsy (PASSWORD (module_config sys getenv))"
  show "fst (main sys getenv w0) = Inl (SystemExit 1)"
    by (simp add: main_without_credentials[OF m])
  then show "exit_code (fst (main sys getenv w0)) = 1"
    by simp
  show "files (snd (main sys getenv w0)) = files w0"
    by (simp add: main_without_credentials[OF m])
next
  show "env_falsy (USERNAME (module_config sys getenv))
        \<longleftrightarrow> env_falsy (getenv ''LINUXDO_USERNAME'') \<and> env_falsy (getenv ''USERNAME'')"
    by (rule module_config_credentials)
  show "env_falsy (PASSWORD (module_config sys getenv))
        \<longleftrightarrow> env_falsy (getenv ''LINUXDO_PASSWORD'') \<and> env_falsy (getenv ''PASSWORD'')"
    by (rule module_config_credentials)
next
  assume c: "\<not> env_falsy (USERNAME (module_config sys getenv))"
    "\<not> env_falsy (PASSWORD (module_config sys getenv))"
    "init sys (w0\<lparr>trace := trace w0 @ [Log INFO ''LinuxDo automation script started'']\<rparr>)
        = (Inr page', w')"
  show "main sys getenv w0
          = io_bind (run sys (module_config sys getenv) page')
              (\<lambda>_. logger INFO ''script finished'') w'"
    using c by (rule main_with_credentials)
  assume "login sys (module_config sys getenv) page' w' = (Inr False, w1')"
  with c show "main sys getenv w0 = run sys (module_config sys getenv) page' w'"
    by (rule main_after_failed_login)
qed

theorem login_failure_exit_witness:
  "exit_code (fst (main base_sys (\<lambda>name. None) cold_world)) = 1
   \<and> exit_code (fst (run base_sys neo_cfg 0 both_caches_world)) = 1
   \<and> files (snd (run base_sys neo_cfg 0 both_caches_world)) ''linuxdo_cookies.json'' = None
   \<and> files (snd (run base_sys neo_cfg 0 both_caches_world)) ''linuxdo_session.json'' = None
   \<and> exit_code (fst (main base_sys neo_env both_caches_world)) = 1
   \<and> files (snd (main base_sys neo_env both_caches_world)) ''linuxdo_cookies.json'' = None
   \<and> files (snd (main base_sys neo_env both_caches_world)) ''linuxdo_session.json'' = None"
proof -
  have failed: "login base_sys neo_cfg 0 w = (Inr False, snd (login base_sys neo_cfg 0 w))"
    for w
  proof -
    obtain v where "fst (login base_sys neo_cfg 0 w) = Inr v" and "\<not> v"
      using yieldsD[OF login_base, of w] by blast
    then show ?thesis by (simp add: prod_eq_iff)
  qed
  have missing: "exit_code (fst (main base_sys (\<lambda>name. None) cold_world)) = 1"
    using login_failure_exit[where sys = base_sys and getenv = "\<lambda>name. None"
        and ?w0.0 = cold_world]
    by (simp add: module_config_def Let_def)
  note direct = login_failure_exit[where sys = base_sys and cfg = neo_cfg and page = 0
      and w = both_caches_world and ?w1.0 = "snd (login base_sys neo_cfg 0 both_caches_world)",
      THEN conjunct1, THEN mp, OF failed]
  have run1: "exit_code (fst (run base_sys neo_cfg 0 both_caches_world)) = 1"
    using direct by simp
  have run2: "files (snd (run base_sys neo_cfg 0 both_caches_world)) ''linuxdo_cookies.json'' = None
    \<and> files (snd (run base_sys neo_cfg 0 both_caches_world)) ''linuxdo_session.json'' = None"
    using direct by (simp add: base_sys_simps)
  let ?w0 = "both_caches_world\<lparr>trace := trace both_caches_world
               @ [Log INFO ''LinuxDo automation script started'']\<rparr>"
  have started: "init base_sys ?w0 = (Inr 0, snd (init base_sys ?w0))"
  proof -
    obtain v where "fst (init base_sys ?w0) = Inr v" and "v = 0"
      using yieldsD[OF init_base, of ?w0] by blast
    then show ?thesis by (simp add: prod_eq_iff)
  qed
  have creds: "\<not> env_falsy (USERNAME (module_config base_sys neo_env))"
    "\<not> env_falsy (PASSWORD (module_config base_sys neo_env))"
    by (simp_all add: module_config_neo neo_cfg_def u_def)
  have failed': "login base_sys (module_config base_sys neo_env) 0 (snd (init base_sys ?w0))
      = (Inr False, snd (login base_sys neo_cfg 0 (snd (init base_sys ?w0))))"
    using failed by (simp add: module_config_neo)
  have whole: "main base_sys neo_env both_caches_world
                 = run base_sys neo_cfg 0 (snd (init base_sys ?w0))"
    using login_failure_exit[where sys = base_sys and getenv = neo_env
        and ?w0.0 = both_caches_world and page' = 0 and w' = "snd (init base_sys ?w0)"
        and w1' = "snd (login base_sys neo_cfg 0 (snd (init base_sys ?w0)))",
        THEN conjunct2, THEN conjunct2, THEN conjunct2, THEN conjunct2,
        THEN mp, OF creds(1), THEN mp, OF creds(2), THEN mp, OF started,
        THEN conjunct2, THEN mp, OF failed']
    by (simp add: module_config_neo)
  note after = login_failure_exit[where sys = base_sys and cfg = neo_cfg and page = 0
      and w = "snd (init base_sys ?w0)"
      and ?w1.0 = "snd (login base_sys neo_cfg 0 (snd (init base_sys ?w0)))",
      THEN conjunct1, THEN mp, OF failed]
  have main1: "exit_code (fst (main base_sys neo_env both_caches_world)) = 1"
    using after by (simp add: whole)
  have main2: "files (snd (main base_sys neo_env both_caches_world)) ''linuxdo_cookies.json'' = None
    \<and> files (snd (main base_sys neo_env both_caches_world)) ''linuxdo_session.json'' = None"
    using after by (simp add: whole base_sys_simps)
  show ?thesis
    using missing run1 run2 main1 main2 by simp
qed

end
